theory Spec2Isabelle
  imports Main
begin

section \<open>JavaScript values handled by the wrapper\<close>

text \<open>
  User code run through \<open>ExecutableItemWrapper.wrap\<close> may return or throw any JavaScript
  value. The wrapper looks at three things only: whether a value is truthy, what its
  \<open>stack\<close> and \<open>message\<close> properties are, and whether it is a promise. A promise is
  represented by the way it settles (\<open>Pending\<close>: it never does).
\<close>

datatype jsval =
    JUndefined
  | JNull
  | JBool bool
  | JNum int
  | JStr string
  | JArray "jsval list"
  | JObject "(string \<times> jsval) list"
  | JPromise settlement
and settlement = Resolved jsval | Rejected jsval | Pending

text \<open>What running a piece of user code ends with: \<open>return v\<close> or \<open>throw v\<close>.\<close>

datatype completion = Return jsval | Throw jsval

text \<open>Errors raised by the reporter and the wrapper themselves.\<close>

datatype error = Error string | TypeError

fun truthy :: "jsval \<Rightarrow> bool" where
  "truthy JUndefined = False"
| "truthy JNull = False"
| "truthy (JBool b) = b"
| "truthy (JNum n) = (n \<noteq> 0)"
| "truthy (JStr s) = (s \<noteq> [])"
| "truthy (JArray xs) = True"
| "truthy (JObject kvs) = True"
| "truthy (JPromise p) = True"

text \<open>\<open>a || b\<close>\<close>

definition js_or :: "jsval \<Rightarrow> jsval \<Rightarrow> jsval" where
  "js_or a b = (if truthy a then a else b)"

text \<open>
  \<open>v.k\<close> for \<open>k\<close> one of \<open>stack\<close>, \<open>message\<close>: reading a property of \<open>undefined\<close> or
  \<open>null\<close> raises a TypeError; primitives, arrays and promises have no such property.
\<close>

fun get_prop :: "jsval \<Rightarrow> string \<Rightarrow> error + jsval" where
  "get_prop JUndefined k = Inl TypeError"
| "get_prop JNull k = Inl TypeError"
| "get_prop (JObject kvs) k = Inr (case map_of kvs k of None \<Rightarrow> JUndefined | Some v \<Rightarrow> v)"
| "get_prop v k = Inr JUndefined"

text \<open>The same read where the value is known not to be \<open>undefined\<close> or \<open>null\<close>.\<close>

definition prop_of :: "jsval \<Rightarrow> string \<Rightarrow> jsval" where
  "prop_of v k = (case get_prop v k of Inl e \<Rightarrow> JUndefined | Inr x \<Rightarrow> x)"

text \<open>
  Modelled from the spec: \<open>isPromise\<close> (imported from \<open>./isPromise\<close>) recognises a
  "returned asynchronous result".
\<close>

fun isPromise :: "jsval \<Rightarrow> bool" where
  "isPromise (JPromise p) = True"
| "isPromise v = False"

text \<open>\<open>String.prototype.replace(pattern, "")\<close> with a string pattern: the leftmost
  occurrence of the pattern is removed.\<close>

fun replace_first :: "string \<Rightarrow> string \<Rightarrow> string" where
  "replace_first pat [] = []"
| "replace_first pat (c # cs) =
     (if take (length pat) (c # cs) = pat then drop (length pat) (c # cs)
      else c # replace_first pat cs)"

fun js_replace :: "jsval \<Rightarrow> jsval \<Rightarrow> jsval" where
  "js_replace (JStr s) (JStr pat) = JStr (replace_first pat s)"
| "js_replace v pat = v"

section \<open>Report model\<close>

datatype Status = PASSED | FAILED | BROKEN | SKIPPED

datatype Stage = SCHEDULED | RUNNING | FINISHED | PENDING | INTERRUPTED

text \<open>
  Objects live in a store and are named by references. \<open>AllureTest\<close>, \<open>AllureStep\<close> and the
  fixture wrappers returned by \<open>addBefore\<close>/\<open>addAfter\<close> are all \<open>ExecutableItemWrapper\<close>s
  around a result object of their own kind. An \<open>AllureTest\<close> \<open>t\<close> wraps the result at
  \<open>TestRef t\<close>, an \<open>AllureStep\<close> \<open>s\<close> the result at \<open>StepRef s\<close>.
\<close>

datatype ref = TestRef nat | StepRef nat | FixtureRef nat

record StatusDetails =
  message :: jsval
  trace :: jsval

text \<open>The fields of \<open>FixtureResult | TestResult | StepResult\<close> that the code touches
  (\<open>labels\<close>, \<open>fullName\<close> and \<open>historyId\<close> are used on tests only). A label and a parameter
  are \<open>(name, value)\<close>, an attachment is \<open>(name, type, source)\<close>.\<close>

record Result =
  name :: string
  status :: "Status option"
  stage :: Stage
  statusDetails :: StatusDetails
  steps :: "ref list"
  attachments :: "(string \<times> string \<times> string) list"
  parameters :: "(string \<times> string) list"
  labels :: "(string \<times> string) list"
  fullName :: "string option"
  historyId :: "string option"
  start :: "nat option"
  stop :: "nat option"

datatype child = ChildGroup nat | ChildTest nat

record Group =
  groupName :: string
  children :: "child list"
  befores :: "ref list"
  afters :: "ref list"
  ended :: bool

text \<open>
  Modelled from the spec: the constructors of \<open>./constructors\<close>. "Every constructed item
  starts in a not yet started status with no status code and stage scheduled", with
  "empty detail objects, empty attachment/parameter/step collections".
\<close>

definition newResult :: Result where
  "newResult = \<lparr>name = [], status = None, stage = SCHEDULED,
     statusDetails = \<lparr>message = JUndefined, trace = JUndefined\<rparr>,
     steps = [], attachments = [], parameters = [], labels = [],
     fullName = None, historyId = None, start = None, stop = None\<rparr>"

definition newGroup :: "string \<Rightarrow> Group" where
  "newGroup nm = \<lparr>groupName = nm, children = [], befores = [], afters = [], ended = False\<rparr>"

section \<open>The reporter and the store it works on\<close>

text \<open>
  The first seven fields are the fields of \<open>JasmineAllureReporter\<close>. The others are the
  world it mutates: the result objects and groups held by the runtime, the groups started
  on the runtime itself, the next unused reference, a logical clock for \<open>Date.now()\<close>
  (every read returns the current value and advances it, so time stamps record the order
  of the reads), and the lines written with \<open>console.error\<close>.
\<close>

record Reporter =
  projectDir :: "string option"
  groupStack :: "nat list"
  labelStack :: "(string \<times> string) list list"
  runningTest :: "nat option"
  stepStack :: "nat list"
  runningExecutable :: "ref option"
  isSuite :: bool
  results :: "ref \<Rightarrow> Result"
  groups :: "nat \<Rightarrow> Group"
  rootGroups :: "nat list"
  lim :: nat
  clock :: nat
  console :: "string list"

text \<open>What the reporter takes from its host: \<open>strip-ansi\<close>, \<open>path.relative\<close>,
  \<open>process.env.JEST_WORKER_ID\<close> and the runtime's attachment writer.\<close>

record Host =
  stripAnsi :: "string \<Rightarrow> string"
  path_relative :: "string \<Rightarrow> string \<Rightarrow> string"
  JEST_WORKER_ID :: "string option"
  writeAttachment :: "string \<Rightarrow> string \<Rightarrow> string"

definition newReporter :: "string option \<Rightarrow> Reporter" where
  "newReporter dir = \<lparr>projectDir = dir, groupStack = [], labelStack = [[]],
     runningTest = None, stepStack = [], runningExecutable = None, isSuite = False,
     results = (\<lambda>r. newResult), groups = (\<lambda>g. newGroup []), rootGroups = [],
     lim = 0, clock = 0, console = []\<rparr>"

definition updResult :: "ref \<Rightarrow> (Result \<Rightarrow> Result) \<Rightarrow> Reporter \<Rightarrow> Reporter" where
  "updResult r f w = w\<lparr>results := (results w)(r := f (results w r))\<rparr>"

definition updGroup :: "nat \<Rightarrow> (Group \<Rightarrow> Group) \<Rightarrow> Reporter \<Rightarrow> Reporter" where
  "updGroup g f w = w\<lparr>groups := (groups w)(g := f (groups w g))\<rparr>"

definition console_error :: "string \<Rightarrow> Reporter \<Rightarrow> Reporter" where
  "console_error line w = w\<lparr>console := console w @ [line]\<rparr>"

section \<open>ExecutableItemWrapper\<close>

definition set_status :: "ref \<Rightarrow> Status option \<Rightarrow> Reporter \<Rightarrow> Reporter" where
  "set_status r st = updResult r (\<lambda>i. i\<lparr>status := st\<rparr>)"

definition set_stage :: "ref \<Rightarrow> Stage \<Rightarrow> Reporter \<Rightarrow> Reporter" where
  "set_stage r sg = updResult r (\<lambda>i. i\<lparr>stage := sg\<rparr>)"

definition set_detailsMessage :: "ref \<Rightarrow> jsval \<Rightarrow> Reporter \<Rightarrow> Reporter" where
  "set_detailsMessage r m =
     updResult r (\<lambda>i. i\<lparr>statusDetails := (statusDetails i)\<lparr>message := m\<rparr>\<rparr>)"

definition set_detailsTrace :: "ref \<Rightarrow> jsval \<Rightarrow> Reporter \<Rightarrow> Reporter" where
  "set_detailsTrace r t =
     updResult r (\<lambda>i. i\<lparr>statusDetails := (statusDetails i)\<lparr>trace := t\<rparr>\<rparr>)"

text \<open>The class declares \<open>set detailsMessage\<close> and \<open>set detailsTrace\<close> and no getter for
  either, so reading \<open>this.detailsTrace\<close> or \<open>this.detailsMessage\<close> yields \<open>undefined\<close>.\<close>

definition get_detailsTrace :: "ref \<Rightarrow> Reporter \<Rightarrow> jsval" where
  "get_detailsTrace r w = JUndefined"

definition get_detailsMessage :: "ref \<Rightarrow> Reporter \<Rightarrow> jsval" where
  "get_detailsMessage r w = JUndefined"

definition addParameter :: "ref \<Rightarrow> string \<Rightarrow> string \<Rightarrow> Reporter \<Rightarrow> Reporter" where
  "addParameter r nm v = updResult r (\<lambda>i. i\<lparr>parameters := parameters i @ [(nm, v)]\<rparr>)"

definition addAttachment :: "ref \<Rightarrow> string \<Rightarrow> string \<Rightarrow> string \<Rightarrow> Reporter \<Rightarrow> Reporter" where
  "addAttachment r nm ty fileName =
     updResult r (\<lambda>i. i\<lparr>attachments := attachments i @ [(nm, ty, fileName)]\<rparr>)"

text \<open>\<open>startStep\<close>: a new step result is pushed onto the item's \<open>steps\<close>; the \<open>AllureStep\<close>
  constructor stamps \<open>start\<close>; then the name is set.\<close>

definition startStep :: "ref \<Rightarrow> string \<Rightarrow> Reporter \<Rightarrow> nat \<times> Reporter" where
  "startStep r nm w =
     (let s = lim w;
          w1 = w\<lparr>results := (results w)(StepRef s := newResult), lim := Suc (lim w)\<rparr>;
          w2 = updResult r (\<lambda>i. i\<lparr>steps := steps i @ [StepRef s]\<rparr>) w1;
          w3 = (updResult (StepRef s) (\<lambda>i. i\<lparr>start := Some (clock w2)\<rparr>) w2)
                 \<lparr>clock := Suc (clock w2)\<rparr>;
          w4 = updResult (StepRef s) (\<lambda>i. i\<lparr>name := nm\<rparr>) w3
      in (s, w4))"

text \<open>\<open>AllureStep.endStep\<close>\<close>

definition endStep :: "nat \<Rightarrow> Reporter \<Rightarrow> Reporter" where
  "endStep s w =
     (updResult (StepRef s) (\<lambda>i. i\<lparr>stop := Some (clock w)\<rparr>) w)\<lparr>clock := Suc (clock w)\<rparr>"

definition logStep :: "ref \<Rightarrow> Status \<Rightarrow> Reporter \<Rightarrow> Reporter" where
  "logStep r st w = set_status r (Some st) (set_stage r FINISHED w)"

text \<open>The block shared by the \<open>catch\<close> clause and the rejection handler of \<open>wrap\<close>, entered
  when \<open>error.stack && error.message\<close>.\<close>

definition record_failure :: "ref \<Rightarrow> jsval \<Rightarrow> Reporter \<Rightarrow> Reporter" where
  "record_failure r err w =
     (let w1 = set_status r (Some FAILED) w;
          w2 = set_stage r FINISHED w1;
          w3 = set_detailsMessage r (js_or (prop_of err ''message'') (JStr [])) w2;
          w4 = set_detailsTrace r (js_or (prop_of err ''stack'') (JStr [])) w3
      in if truthy (get_detailsTrace r w4)
         then set_detailsTrace r (js_replace (get_detailsTrace r w4) (get_detailsMessage r w4)) w4
         else w4)"

text \<open>The \<open>catch (error)\<close> clause: it yields the new value of \<open>result\<close>, or the TypeError
  that reading a property of a thrown \<open>undefined\<close> or \<open>null\<close> raises.\<close>

definition wrap_catch :: "ref \<Rightarrow> jsval \<Rightarrow> Reporter \<Rightarrow> (error + jsval) \<times> Reporter" where
  "wrap_catch r err w =
     (case get_prop err ''stack'' of
        Inl e \<Rightarrow> (Inl e, w)
      | Inr stack \<Rightarrow>
          if truthy stack \<or> truthy (prop_of err ''message'') then
            (Inr err,
             if truthy stack \<and> truthy (prop_of err ''message'') then record_failure r err w else w)
          else (Inr JUndefined, w))"

text \<open>The \<open>then\<close> and \<open>catch\<close> callbacks attached to a returned promise.\<close>

definition wrap_resolved :: "ref \<Rightarrow> Reporter \<Rightarrow> Reporter" where
  "wrap_resolved r w =
     (let w1 = (if status (results w r) = None then set_status r (Some PASSED) w else w)
      in set_stage r FINISHED w1)"

definition wrap_rejected :: "ref \<Rightarrow> jsval \<Rightarrow> Reporter \<Rightarrow> Reporter" where
  "wrap_rejected r err w =
     (let w1 = set_stage r INTERRUPTED w;
          w2 = (if status (results w1 r) = None then set_status r (Some BROKEN) w1 else w1)
      in if truthy err then
           (if truthy (prop_of err ''stack'') \<and> truthy (prop_of err ''message'')
            then record_failure r err w2 else w2)
         else w2)"

text \<open>
  \<open>wrap(fun)(...args)\<close>. The user function takes its JavaScript argument list and the
  world. For a returned promise the callbacks run when it settles; the world returned is
  the one after that, and the value returned is the promise built by
  \<open>promise.then(...).catch(...)\<close>: it resolves with the value of the callback that ran
  (the rejection handler returns nothing).
\<close>

type_synonym body = "jsval list \<Rightarrow> Reporter \<Rightarrow> completion \<times> Reporter"

definition wrap :: "ref \<Rightarrow> body \<Rightarrow> jsval list \<Rightarrow> Reporter \<Rightarrow> (error + jsval) \<times> Reporter" where
  "wrap r fn args w =
     (let w0 = set_stage r RUNNING w;
          (res, w2) = (case fn [JArray args] w0 of
                         (Return v, w1) \<Rightarrow> (Inr v, w1)
                       | (Throw err, w1) \<Rightarrow> wrap_catch r err w1)
      in case res of
           Inl e \<Rightarrow> (Inl e, w2)
         | Inr result \<Rightarrow>
             if isPromise result then
               (case result of
                  JPromise (Resolved v) \<Rightarrow> (Inr (JPromise (Resolved v)), wrap_resolved r w2)
                | JPromise (Rejected err) \<Rightarrow>
                    (Inr (JPromise (Resolved JUndefined)), wrap_rejected r err w2)
                | _ \<Rightarrow> (Inr result, w2))
             else
               (Inr result,
                set_stage r FINISHED
                  (if status (results w2 r) = None then set_status r (Some PASSED) w2 else w2)))"

section \<open>Groups, tests and fixtures of the runtime\<close>

text \<open>
  Modelled from the spec: the classes \<open>AllureRuntime\<close>, \<open>AllureGroup\<close> and \<open>AllureTest\<close> of
  allure-js-commons and the label names of \<open>LabelName\<close>. A Group "holds an ordered
  sequence of child items (tests, sub-groups, fixtures) and a name"; the runtime root
  "exposes \<open>startGroup(name) -> Group\<close> at the top level"; a group is "closed (sealed) when
  its corresponding end event fires"; a Fixture is "attached to the enclosing Group";
  labels are "ordered"; "timing fields are set exactly once at start and once at end".
\<close>

definition LabelName_PARENT_SUITE :: string where "LabelName_PARENT_SUITE = ''parent-suite''"
definition LabelName_SUITE :: string where "LabelName_SUITE = ''suite''"
definition LabelName_SUB_SUITE :: string where "LabelName_SUB_SUITE = ''sub-suite''"
definition LabelName_THREAD :: string where "LabelName_THREAD = ''thread''"
definition LabelName_PACKAGE :: string where "LabelName_PACKAGE = ''package''"

definition runtime_startGroup :: "string \<Rightarrow> Reporter \<Rightarrow> nat \<times> Reporter" where
  "runtime_startGroup nm w =
     (let g = lim w
      in (g, w\<lparr>groups := (groups w)(g := newGroup nm),
               rootGroups := rootGroups w @ [g], lim := Suc (lim w)\<rparr>))"

definition group_startGroup :: "nat \<Rightarrow> string \<Rightarrow> Reporter \<Rightarrow> nat \<times> Reporter" where
  "group_startGroup p nm w =
     (let g = lim w;
          w1 = w\<lparr>groups := (groups w)(g := newGroup nm), lim := Suc (lim w)\<rparr>
      in (g, updGroup p (\<lambda>x. x\<lparr>children := children x @ [ChildGroup g]\<rparr>) w1))"

definition startTest :: "nat \<Rightarrow> string \<Rightarrow> Reporter \<Rightarrow> nat \<times> Reporter" where
  "startTest p nm w =
     (let t = lim w;
          w1 = w\<lparr>results := (results w)
                   (TestRef t := newResult\<lparr>name := nm, start := Some (clock w)\<rparr>),
                 lim := Suc (lim w), clock := Suc (clock w)\<rparr>
      in (t, updGroup p (\<lambda>x. x\<lparr>children := children x @ [ChildTest t]\<rparr>) w1))"

definition endGroup :: "nat \<Rightarrow> Reporter \<Rightarrow> Reporter" where
  "endGroup g = updGroup g (\<lambda>x. x\<lparr>ended := True\<rparr>)"

definition addBefore :: "nat \<Rightarrow> Reporter \<Rightarrow> ref \<times> Reporter" where
  "addBefore g w =
     (let f = FixtureRef (lim w);
          w1 = w\<lparr>results := (results w)(f := newResult), lim := Suc (lim w)\<rparr>
      in (f, updGroup g (\<lambda>x. x\<lparr>befores := befores x @ [f]\<rparr>) w1))"

definition addAfter :: "nat \<Rightarrow> Reporter \<Rightarrow> ref \<times> Reporter" where
  "addAfter g w =
     (let f = FixtureRef (lim w);
          w1 = w\<lparr>results := (results w)(f := newResult), lim := Suc (lim w)\<rparr>
      in (f, updGroup g (\<lambda>x. x\<lparr>afters := afters x @ [f]\<rparr>) w1))"

definition test_addLabel :: "nat \<Rightarrow> string \<Rightarrow> string \<Rightarrow> Reporter \<Rightarrow> Reporter" where
  "test_addLabel t nm v = updResult (TestRef t) (\<lambda>i. i\<lparr>labels := labels i @ [(nm, v)]\<rparr>)"

definition endTest :: "nat \<Rightarrow> Reporter \<Rightarrow> Reporter" where
  "endTest t w =
     (updResult (TestRef t) (\<lambda>i. i\<lparr>stop := Some (clock w)\<rparr>) w)\<lparr>clock := Suc (clock w)\<rparr>"

section \<open>What the host engine delivers\<close>

text \<open>
  \<open>jasmine.FailedExpectation\<close> and \<open>jasmine.CustomReporterResult\<close>. \<open>specDone\<close> tests
  \<open>typeof message === "string"\<close> and \<open>typeof stack === "string"\<close>: a message or stack that
  is not a string is \<open>None\<close>. \<open>testPath\<close> is the property Jest adds to a spec result.
\<close>

record FailedExpectation =
  matcherName :: string
  e_message :: "string option"
  e_stack :: "string option"

record CustomReporterResult =
  description :: string
  spec_fullName :: string
  spec_status :: "string option"
  pendingReason :: "string option"
  failedExpectations :: "FailedExpectation list option"
  testPath :: "string option"

text \<open>The string enum \<open>SpecStatus\<close>.\<close>

definition SpecStatus_PASSED :: string where "SpecStatus_PASSED = ''passed''"
definition SpecStatus_FAILED :: string where "SpecStatus_FAILED = ''failed''"
definition SpecStatus_BROKEN :: string where "SpecStatus_BROKEN = ''broken''"
definition SpecStatus_PENDING :: string where "SpecStatus_PENDING = ''pending''"
definition SpecStatus_DISABLED :: string where "SpecStatus_DISABLED = ''disabled''"
definition SpecStatus_EXCLUDED :: string where "SpecStatus_EXCLUDED = ''excluded''"
definition SpecStatus_TODO :: string where "SpecStatus_TODO = ''todo''"

text \<open>\<open>s.split("/")\<close> and \<open>xs.join("/")\<close>.\<close>

fun split_on :: "char \<Rightarrow> string \<Rightarrow> string list" where
  "split_on c [] = [[]]"
| "split_on c (x # xs) =
     (if x = c then [] # split_on c xs
      else (case split_on c xs of [] \<Rightarrow> [[x]] | p # ps \<Rightarrow> (x # p) # ps))"

fun join :: "string \<Rightarrow> string list \<Rightarrow> string" where
  "join sep [] = []"
| "join sep [x] = x"
| "join sep (x # y # ys) = x @ sep @ join sep (y # ys)"

section \<open>JasmineAllureReporter\<close>

definition getCurrentGroup :: "Reporter \<Rightarrow> nat option" where
  "getCurrentGroup w = (if length (groupStack w) = 0 then None else Some (last (groupStack w)))"

definition currentGroup :: "Reporter \<Rightarrow> error + nat" where
  "currentGroup w =
     (case getCurrentGroup w of None \<Rightarrow> Inl (Error ''No active group'') | Some g \<Rightarrow> Inr g)"

definition currentTest :: "Reporter \<Rightarrow> error + nat" where
  "currentTest w =
     (case runningTest w of None \<Rightarrow> Inl (Error ''No active test'') | Some t \<Rightarrow> Inr t)"

text \<open>\<open>(this.getCurrentGroup() || this.runtime).startGroup(name)\<close>\<close>

definition startGroup_here :: "string \<Rightarrow> Reporter \<Rightarrow> nat \<times> Reporter" where
  "startGroup_here nm w =
     (case getCurrentGroup w of
        None \<Rightarrow> runtime_startGroup nm w
      | Some g \<Rightarrow> group_startGroup g nm w)"

definition suiteStarted :: "CustomReporterResult \<Rightarrow> Reporter \<Rightarrow> (error + unit) \<times> Reporter" where
  "suiteStarted suite w =
     (let w1 = w\<lparr>isSuite := True\<rparr>;
          (g, w2) = startGroup_here (description suite) w1
      in (Inr (), w2\<lparr>groupStack := groupStack w2 @ [g], labelStack := labelStack w2 @ [[]]\<rparr>))"

definition addLabel :: "string \<Rightarrow> string \<Rightarrow> Reporter \<Rightarrow> Reporter" where
  "addLabel nm v w =
     (if length (labelStack w) \<noteq> 0
      then w\<lparr>labelStack := butlast (labelStack w) @ [last (labelStack w) @ [(nm, v)]]\<rparr>
      else w)"

definition pushStep :: "nat \<Rightarrow> Reporter \<Rightarrow> Reporter" where
  "pushStep s w = w\<lparr>stepStack := stepStack w @ [s]\<rparr>"

definition popStep :: "Reporter \<Rightarrow> Reporter" where
  "popStep w = w\<lparr>stepStack := butlast (stepStack w)\<rparr>"

definition currentStep :: "Reporter \<Rightarrow> nat option" where
  "currentStep w = (if length (stepStack w) > 0 then Some (last (stepStack w)) else None)"

definition findMessageAboutThrow :: "FailedExpectation list option \<Rightarrow> FailedExpectation option" where
  "findMessageAboutThrow expectations =
     find (\<lambda>e. matcherName e = []) (case expectations of None \<Rightarrow> [] | Some es \<Rightarrow> es)"

definition findAnyError :: "FailedExpectation list option \<Rightarrow> FailedExpectation option" where
  "findAnyError expectations =
     (case (case expectations of None \<Rightarrow> [] | Some es \<Rightarrow> es) of
        [] \<Rightarrow> None
      | e # es \<Rightarrow> Some e)"

text \<open>
  \<open>specStarted\<close>, first part (a test that is not in a describe block): the path of the test
  file, split at \<open>/\<close>, and the group opened for its first segment. Without a \<open>testPath\<close>
  both \<open>path.relative\<close> and \<open>testPath.split\<close> raise a TypeError.
\<close>

definition specPath :: "Host \<Rightarrow> CustomReporterResult \<Rightarrow> Reporter \<Rightarrow> error + string list" where
  "specPath h spec w =
     (case testPath spec of
        None \<Rightarrow> Inl TypeError
      | Some tp \<Rightarrow>
          Inr (split_on CHR ''/''
                (case projectDir w of
                   None \<Rightarrow> tp
                 | Some dir \<Rightarrow> if dir \<noteq> [] then path_relative h dir tp else tp)))"

definition openFileGroup :: "Host \<Rightarrow> CustomReporterResult \<Rightarrow> Reporter \<Rightarrow> error + (string list \<times> Reporter)" where
  "openFileGroup h spec w =
     (if \<not> isSuite w then
        (case specPath h spec w of
           Inl e \<Rightarrow> Inl e
         | Inr specPathArr \<Rightarrow>
             if length specPathArr > 0 then
               (let (g, w1) = startGroup_here (specPathArr ! 0) w
                in Inr (specPathArr,
                     w1\<lparr>groupStack := groupStack w1 @ [g], labelStack := labelStack w1 @ [[]]\<rparr>))
             else Inr (specPathArr, w))
      else Inr ([], w))"

text \<open>\<open>specStarted\<close>, last part: everything after the check for a running test.\<close>

definition suiteLabels :: "nat \<Rightarrow> Reporter \<Rightarrow> Reporter" where
  "suiteLabels t w =
     (let w1 = (if length (groupStack w) > 1
                then test_addLabel t LabelName_PARENT_SUITE (groupName (groups w (groupStack w ! 0))) w
                else w);
          w2 = (if length (groupStack w1) > 2
                then test_addLabel t LabelName_SUITE (groupName (groups w1 (groupStack w1 ! 1))) w1
                else w1)
      in if length (groupStack w2) > 3
         then test_addLabel t LabelName_SUB_SUITE (groupName (groups w2 (groupStack w2 ! 2))) w2
         else w2)"

definition pathLabels :: "nat \<Rightarrow> string list \<Rightarrow> Reporter \<Rightarrow> Reporter" where
  "pathLabels t specPathArr w =
     (let n = length specPathArr;
          w1 = test_addLabel t LabelName_SUB_SUITE (specPathArr ! (n - 1)) w;
          w2 = test_addLabel t LabelName_SUITE (specPathArr ! (n - 2)) w1;
          w3 = test_addLabel t LabelName_PARENT_SUITE (join ''/'' (take (n - 2) specPathArr)) w2
      in test_addLabel t LabelName_PACKAGE (specPathArr ! 0) w3)"

definition flushLabels :: "nat \<Rightarrow> Reporter \<Rightarrow> Reporter" where
  "flushLabels t w = foldl (\<lambda>w' (nm, v). test_addLabel t nm v w') w (concat (labelStack w))"

definition setUpTest :: "Host \<Rightarrow> CustomReporterResult \<Rightarrow> string list \<Rightarrow> nat \<Rightarrow> Reporter \<Rightarrow> Reporter" where
  "setUpTest h spec specPathArr allureTest w =
     (let w1 = w\<lparr>runningTest := Some allureTest\<rparr>;
          w2 = updResult (TestRef allureTest) (\<lambda>i. i\<lparr>fullName := Some (spec_fullName spec)\<rparr>) w1;
          w3 = updResult (TestRef allureTest) (\<lambda>i. i\<lparr>historyId := Some (spec_fullName spec)\<rparr>) w2;
          w4 = set_stage (TestRef allureTest) RUNNING w3;
          w5 = (if isSuite w4 then suiteLabels allureTest w4 else w4);
          w6 = (if \<not> isSuite w5 \<and> length specPathArr > 1
                then pathLabels allureTest specPathArr w5 else w5);
          w7 = (case JEST_WORKER_ID h of
                  None \<Rightarrow> w6
                | Some wid \<Rightarrow> if wid \<noteq> [] then addLabel LabelName_THREAD wid w6 else w6)
      in flushLabels allureTest w7)"

definition specStarted :: "Host \<Rightarrow> CustomReporterResult \<Rightarrow> Reporter \<Rightarrow> (error + unit) \<times> Reporter" where
  "specStarted h spec w =
     (case openFileGroup h spec w of
        Inl e \<Rightarrow> (Inl e, w)
      | Inr (specPathArr, w1) \<Rightarrow>
          (case getCurrentGroup w1 of
             None \<Rightarrow> (Inl (Error ''No active suite''), w1)
           | Some g \<Rightarrow>
               (let (wrapper, w2) = group_startGroup g ''Test wrapper'' w1;
                    w3 = w2\<lparr>groupStack := groupStack w2 @ [wrapper]\<rparr>;
                    (allureTest, w4) = startTest wrapper (description spec) w3
                in if runningTest w4 \<noteq> None
                   then (Inl (Error ''Test is starting before other ended!''), w4)
                   else (Inr (), setUpTest h spec specPathArr allureTest w4))))"

text \<open>\<open>specDone\<close>: the body of the loop over the reversed step stack.\<close>

definition closeLeakedStep :: "nat \<Rightarrow> Reporter \<Rightarrow> Reporter" where
  "closeLeakedStep s w =
     (let w1 = set_status (StepRef s) (Some BROKEN) w;
          w2 = set_stage (StepRef s) INTERRUPTED w1;
          w3 = set_detailsMessage (StepRef s)
                 (JStr ''Test ended unexpectedly before step could complete.'') w2
      in endStep s w3)"

definition closeLeakedSteps :: "Reporter \<Rightarrow> Reporter" where
  "closeLeakedSteps w =
     (if length (stepStack w) > 0 then
        (let w1 = console_error ''Allure reporter issue: step stack is not empty on specDone'' w;
             w2 = w1\<lparr>stepStack := rev (stepStack w1)\<rparr>;
             w3 = foldl (\<lambda>w' s. closeLeakedStep s w') w2 (stepStack w2)
         in w3\<lparr>stepStack := []\<rparr>)
      else w)"

text \<open>\<open>specDone\<close>: the four \<open>if\<close>s on \<open>spec.status\<close>.\<close>

definition captureStatus :: "CustomReporterResult \<Rightarrow> nat \<Rightarrow> Reporter \<Rightarrow> Reporter" where
  "captureStatus spec t w =
     (let w1 = (if spec_status spec = Some SpecStatus_PASSED
                then set_stage (TestRef t) FINISHED (set_status (TestRef t) (Some PASSED) w)
                else w);
          w2 = (if spec_status spec = Some SpecStatus_BROKEN
                then set_stage (TestRef t) FINISHED (set_status (TestRef t) (Some BROKEN) w1)
                else w1);
          w3 = (if spec_status spec = Some SpecStatus_FAILED
                then set_stage (TestRef t) FINISHED (set_status (TestRef t) (Some FAILED) w2)
                else w2)
      in if spec_status spec = Some SpecStatus_PENDING
           \<or> spec_status spec = Some SpecStatus_DISABLED
           \<or> spec_status spec = Some SpecStatus_EXCLUDED
           \<or> spec_status spec = Some SpecStatus_TODO
         then set_detailsMessage (TestRef t)
                (JStr (case pendingReason spec of
                         None \<Rightarrow> ''Suite disabled''
                       | Some reason \<Rightarrow> if reason \<noteq> [] then reason else ''Suite disabled''))
                (set_stage (TestRef t) PENDING (set_status (TestRef t) (Some SKIPPED) w3))
         else w3)"

text \<open>\<open>specDone\<close>: the failure that is reported, and how it is written onto the test.\<close>

definition exceptionInfo :: "CustomReporterResult \<Rightarrow> FailedExpectation option" where
  "exceptionInfo spec =
     (case findMessageAboutThrow (failedExpectations spec) of
        Some e \<Rightarrow> Some e
      | None \<Rightarrow> findAnyError (failedExpectations spec))"

definition captureException :: "Host \<Rightarrow> CustomReporterResult \<Rightarrow> nat \<Rightarrow> Reporter \<Rightarrow> Reporter" where
  "captureException h spec t w =
     (case exceptionInfo spec of
        None \<Rightarrow> w
      | Some info \<Rightarrow>
          (case e_message info of
             None \<Rightarrow> w
           | Some m \<Rightarrow>
               (let msg = stripAnsi h m;
                    w1 = set_detailsMessage (TestRef t) (JStr msg) w
                in case e_stack info of
                     None \<Rightarrow> w1
                   | Some st \<Rightarrow>
                       if st \<noteq> []
                       then set_detailsTrace (TestRef t)
                              (JStr (replace_first msg (stripAnsi h st))) w1
                       else w1)))"

definition specDone :: "Host \<Rightarrow> CustomReporterResult \<Rightarrow> Reporter \<Rightarrow> (error + unit) \<times> Reporter" where
  "specDone h spec w =
     (case runningTest w of
        None \<Rightarrow> (Inl (Error ''specDone while no test is running''), w)
      | Some t \<Rightarrow>
          (let w1 = closeLeakedSteps w;
               w2 = captureStatus spec t w1;
               w3 = captureException h spec t w2;
               w4 = (endTest t w3)\<lparr>runningTest := None\<rparr>
           in case currentGroup w4 of
                Inl e \<Rightarrow> (Inl e, w4)
              | Inr wrapper \<Rightarrow>
                  (let w5 = endGroup wrapper w4;
                       w6 = w5\<lparr>groupStack := butlast (groupStack w5)\<rparr>
                   in if \<not> isSuite w6 then
                        (case getCurrentGroup w6 of
                           None \<Rightarrow> (Inl (Error ''No active suite''), w6)
                         | Some g \<Rightarrow>
                             (let w7 = endGroup g w6
                              in (Inr (), w7\<lparr>groupStack := butlast (groupStack w7),
                                             labelStack := butlast (labelStack w7)\<rparr>)))
                      else (Inr (), w6))))"

definition suiteDone :: "CustomReporterResult \<Rightarrow> Reporter \<Rightarrow> (error + unit) \<times> Reporter" where
  "suiteDone suite w =
     (let w1 = (if \<not> isSuite w
                then console_error
                       ''Allure reporter issue: suiteDone called without suiteStart context.'' w
                else w);
          w2 = (if runningTest w1 \<noteq> None
                then console_error ''Allure reporter issue: A test was running on suiteDone.'' w1
                else w1)
      in case getCurrentGroup w2 of
           None \<Rightarrow> (Inl (Error ''No active suite.''), w2)
         | Some g \<Rightarrow>
             (let w3 = endGroup g w2
              in (Inr (), w3\<lparr>groupStack := butlast (groupStack w3),
                             labelStack := butlast (labelStack w3)\<rparr>)))"

text \<open>The event stream of the host engine: delivery stops at the first event whose handler
  throws.\<close>

datatype event =
    SuiteStarted CustomReporterResult
  | SpecStarted CustomReporterResult
  | SpecDone CustomReporterResult
  | SuiteDone CustomReporterResult

fun deliver :: "Host \<Rightarrow> event \<Rightarrow> Reporter \<Rightarrow> (error + unit) \<times> Reporter" where
  "deliver h (SuiteStarted x) w = suiteStarted x w"
| "deliver h (SpecStarted x) w = specStarted h x w"
| "deliver h (SpecDone x) w = specDone h x w"
| "deliver h (SuiteDone x) w = suiteDone x w"

fun run_events :: "Host \<Rightarrow> event list \<Rightarrow> Reporter \<Rightarrow> (error + unit) \<times> Reporter" where
  "run_events h [] w = (Inr (), w)"
| "run_events h (e # es) w =
     (case deliver h e w of
        (Inl err, w1) \<Rightarrow> (Inl err, w1)
      | (Inr u, w1) \<Rightarrow> run_events h es w1)"

section \<open>JasmineAllureInterface and WrappedStep\<close>

text \<open>\<open>this.reporter.currentStep || this.reporter.currentExecutable || this.reporter.currentTest\<close>\<close>

definition currentExecutable :: "Reporter \<Rightarrow> error + ref" where
  "currentExecutable w =
     (case currentStep w of
        Some s \<Rightarrow> Inr (StepRef s)
      | None \<Rightarrow>
          (case runningExecutable w of
             Some x \<Rightarrow> Inr x
           | None \<Rightarrow> (case currentTest w of Inl e \<Rightarrow> Inl e | Inr t \<Rightarrow> Inr (TestRef t))))"

definition Interface_startStep :: "string \<Rightarrow> Reporter \<Rightarrow> (error + nat) \<times> Reporter" where
  "Interface_startStep nm w =
     (case currentExecutable w of
        Inl e \<Rightarrow> (Inl e, w)
      | Inr x \<Rightarrow> (let (allureStep, w1) = startStep x nm w in (Inr allureStep, pushStep allureStep w1)))"

definition WrappedStep_run :: "nat \<Rightarrow> body \<Rightarrow> Reporter \<Rightarrow> (error + jsval) \<times> Reporter" where
  "WrappedStep_run s fn w = wrap (StepRef s) fn [] w"

definition WrappedStep_logStep :: "nat \<Rightarrow> Status \<Rightarrow> Reporter \<Rightarrow> Reporter" where
  "WrappedStep_logStep s st w = logStep (StepRef s) st w"

definition WrappedStep_endStep :: "nat \<Rightarrow> Reporter \<Rightarrow> Reporter" where
  "WrappedStep_endStep s w = endStep s (popStep w)"

text \<open>\<open>step(name, body)\<close>: for a promise, \<open>endStep\<close> runs when the promise settles, in
  the \<open>then\<close> callback or in the \<open>catch\<close> callback, and the promise returned settles as
  the one given. A throw of the wrapped call is caught, the step is ended and the error is
  thrown again.\<close>

definition Interface_step :: "string \<Rightarrow> body \<Rightarrow> Reporter \<Rightarrow> (error + jsval) \<times> Reporter" where
  "Interface_step nm fn w =
     (case Interface_startStep nm w of
        (Inl e, w1) \<Rightarrow> (Inl e, w1)
      | (Inr wrappedStep, w1) \<Rightarrow>
          (case WrappedStep_run wrappedStep fn w1 of
             (Inl err, w2) \<Rightarrow> (Inl err, WrappedStep_endStep wrappedStep w2)
           | (Inr result, w2) \<Rightarrow>
               if isPromise result then
                 (case result of
                    JPromise Pending \<Rightarrow> (Inr result, w2)
                  | _ \<Rightarrow> (Inr result, WrappedStep_endStep wrappedStep w2))
               else (Inr result, WrappedStep_endStep wrappedStep w2)))"

text \<open>\<open>attachment(name, content, type)\<close>\<close>

definition Interface_attachment :: "Host \<Rightarrow> string \<Rightarrow> string \<Rightarrow> string \<Rightarrow> Reporter \<Rightarrow> (error + unit) \<times> Reporter" where
  "Interface_attachment h nm content ty w =
     (let file = writeAttachment h content ty
      in case currentExecutable w of
           Inl e \<Rightarrow> (Inl e, w)
         | Inr x \<Rightarrow> (Inr (), addAttachment x nm ty file w))"

fun attachAll :: "Host \<Rightarrow> (string \<times> string \<times> string) list \<Rightarrow> Reporter \<Rightarrow> (error + unit) \<times> Reporter" where
  "attachAll h [] w = (Inr (), w)"
| "attachAll h ((nm, content, ty) # rest) w =
     (case Interface_attachment h nm content ty w of
        (Inl e, w1) \<Rightarrow> (Inl e, w1)
      | (Inr u, w1) \<Rightarrow> attachAll h rest w1)"

text \<open>\<open>logStep(name, status, attachments?)\<close>; an attachment is \<open>(name, content, type)\<close>.\<close>

definition Interface_logStep :: "Host \<Rightarrow> string \<Rightarrow> Status \<Rightarrow> (string \<times> string \<times> string) list option \<Rightarrow> Reporter \<Rightarrow> (error + unit) \<times> Reporter" where
  "Interface_logStep h nm st atts w =
     (case Interface_startStep nm w of
        (Inl e, w1) \<Rightarrow> (Inl e, w1)
      | (Inr wrappedStep, w1) \<Rightarrow>
          (case attachAll h (case atts of None \<Rightarrow> [] | Some as \<Rightarrow> as) w1 of
             (Inl e, w2) \<Rightarrow> (Inl e, w2)
           | (Inr u, w2) \<Rightarrow>
               (Inr (), WrappedStep_endStep wrappedStep (WrappedStep_logStep wrappedStep st w2))))"

text \<open>\<open>setup(body)\<close>: \<open>runningExecutable\<close> is reset when the call returns a value that is
  not a promise, or when the promise settles.\<close>

definition Interface_setup :: "body \<Rightarrow> Reporter \<Rightarrow> (error + jsval) \<times> Reporter" where
  "Interface_setup fn w =
     (case currentGroup w of
        Inl e \<Rightarrow> (Inl e, w)
      | Inr g \<Rightarrow>
          (let (fixture, w1) = addBefore g w;
               w2 = w1\<lparr>runningExecutable := Some fixture\<rparr>
           in case wrap fixture fn [] w2 of
                (Inl err, w3) \<Rightarrow> (Inl err, w3)
              | (Inr result, w3) \<Rightarrow>
                  if isPromise result then
                    (case result of
                       JPromise Pending \<Rightarrow> (Inr result, w3)
                     | _ \<Rightarrow> (Inr result, w3\<lparr>runningExecutable := None\<rparr>))
                  else (Inr result, w3\<lparr>runningExecutable := None\<rparr>)))"

section \<open>The fixture hooks of installHooks\<close>

text \<open>
  A fixture body registered with \<open>beforeAll\<close>, \<open>afterAll\<close>, \<open>beforeEach\<close> or \<open>afterEach\<close>.
  \<open>action.length > 0\<close> tells a body that takes the completion callback from one that
  does not. A body that takes the callback is represented by what it does with it:
  it calls \<open>done()\<close>, calls \<open>done.fail(e)\<close>, throws, or never calls it.
\<close>

datatype done_signal = DoneCalled | FailCalled jsval | ActionThrew jsval | NotCalled

datatype action = NoCallback body | TakesDone "Reporter \<Rightarrow> done_signal \<times> Reporter"

text \<open>What the hook tells the host engine: \<open>done()\<close>, \<open>done.fail(e)\<close>, or nothing yet.\<close>

datatype hook_result = HookDone | HookFail jsval | HookPending

text \<open>
  The shim \<open>() => new Promise((resolve, reject) => { t = resolve; t.fail = reject;
  action(t) })\<close>: the promise resolves when the action calls the callback and rejects
  when it calls \<open>fail\<close> or throws inside the executor. The shim takes no notice of its own
  arguments.
\<close>

definition done_shim :: "(Reporter \<Rightarrow> done_signal \<times> Reporter) \<Rightarrow> body" where
  "done_shim act =
     (\<lambda>args w. case act w of
                  (DoneCalled, w1) \<Rightarrow> (Return (JPromise (Resolved JUndefined)), w1)
                | (FailCalled e, w1) \<Rightarrow> (Return (JPromise (Rejected e)), w1)
                | (ActionThrew e, w1) \<Rightarrow> (Return (JPromise (Rejected e)), w1)
                | (NotCalled, w1) \<Rightarrow> (Return (JPromise Pending), w1))"

text \<open>
  \<open>makeWrapperAll(wrapped, fun)\<close>: the function handed to the host's own registration
  function, which the host calls with \<open>done\<close> when the fixture is due. \<open>fun\<close> is
  \<open>() => reporter.currentGroup.addBefore()\<close> or \<open>() => reporter.currentGroup.addAfter()\<close>;
  \<open>mk\<close> is the group method it calls.
\<close>

definition makeWrapperAll :: "(nat \<Rightarrow> Reporter \<Rightarrow> ref \<times> Reporter) \<Rightarrow> action \<Rightarrow> Reporter \<Rightarrow> (error + hook_result) \<times> Reporter" where
  "makeWrapperAll mk act w =
     (case currentGroup w of
        Inl e \<Rightarrow> (Inl e, w)
      | Inr g \<Rightarrow>
          (let (fixture, w1) = mk g w;
               w2 = w1\<lparr>runningExecutable := Some fixture\<rparr>
           in case (case act of
                      TakesDone a \<Rightarrow> wrap fixture (done_shim a) [] w2
                    | NoCallback fn \<Rightarrow> wrap fixture fn [] w2) of
                (Inl err, w3) \<Rightarrow> (Inl err, w3)
              | (Inr ret, w3) \<Rightarrow>
                  if isPromise ret then
                    (case ret of
                       JPromise (Resolved v) \<Rightarrow> (Inr HookDone, w3\<lparr>runningExecutable := None\<rparr>)
                     | JPromise (Rejected e) \<Rightarrow>
                         (Inr (HookFail e), w3\<lparr>runningExecutable := None\<rparr>)
                     | _ \<Rightarrow> (Inr HookPending, w3))
                  else (Inr HookDone, w3\<lparr>runningExecutable := None\<rparr>)))"

definition wrapperBeforeAll :: "action \<Rightarrow> Reporter \<Rightarrow> (error + hook_result) \<times> Reporter" where
  "wrapperBeforeAll = makeWrapperAll addBefore"

definition wrapperAfterAll :: "action \<Rightarrow> Reporter \<Rightarrow> (error + hook_result) \<times> Reporter" where
  "wrapperAfterAll = makeWrapperAll addAfter"

definition wrapperBeforeEach :: "action \<Rightarrow> Reporter \<Rightarrow> (error + hook_result) \<times> Reporter" where
  "wrapperBeforeEach = makeWrapperAll addBefore"

definition wrapperAfterEach :: "action \<Rightarrow> Reporter \<Rightarrow> (error + hook_result) \<times> Reporter" where
  "wrapperAfterEach = makeWrapperAll addAfter"

section \<open>Inputs used in the examples\<close>

text \<open>User functions: \<open>() => { throw v }\<close>, \<open>() => v\<close> and \<open>(...xs) => xs\<close>.\<close>

definition throwing :: "jsval \<Rightarrow> body" where
  "throwing v = (\<lambda>args w. (Throw v, w))"

definition returning :: "jsval \<Rightarrow> body" where
  "returning v = (\<lambda>args w. (Return v, w))"

definition arguments_probe :: body where
  "arguments_probe = (\<lambda>args w. (Return (JArray args), w))"

text \<open>A fixture body that takes the completion callback and calls it.\<close>

definition calls_done :: "Reporter \<Rightarrow> done_signal \<times> Reporter" where
  "calls_done w = (DoneCalled, w)"

text \<open>\<open>new Error("boom")\<close> and \<open>new Error()\<close>, whose message is the empty string.\<close>

definition error_boom :: jsval where
  "error_boom = JObject [(''message'', JStr ''boom''), (''stack'', JStr ''Error: boom at body'')]"

definition error_no_message :: jsval where
  "error_no_message = JObject [(''message'', JStr []), (''stack'', JStr ''Error at body'')]"

text \<open>A host without a worker id and without colour codes to strip.\<close>

definition host0 :: Host where
  "host0 = \<lparr>stripAnsi = (\<lambda>s. s), path_relative = (\<lambda>dir p. p), JEST_WORKER_ID = None,
     writeAttachment = (\<lambda>content ty. ''attachment'')\<rparr>"

definition suite_A :: CustomReporterResult where
  "suite_A = \<lparr>description = ''A'', spec_fullName = ''A'', spec_status = None,
     pendingReason = None, failedExpectations = None, testPath = None\<rparr>"

definition suite_B :: CustomReporterResult where
  "suite_B = \<lparr>description = ''B'', spec_fullName = ''A B'', spec_status = None,
     pendingReason = None, failedExpectations = None, testPath = None\<rparr>"

definition spec_t1 :: CustomReporterResult where
  "spec_t1 = \<lparr>description = ''t1'', spec_fullName = ''A B t1'', spec_status = Some ''passed'',
     pendingReason = None, failedExpectations = Some [], testPath = Some ''src/a.test.js''\<rparr>"

text \<open>The reporter after suite \<open>A\<close> and spec \<open>t1\<close> have been entered.\<close>

definition running_t1 :: Reporter where
  "running_t1 =
     snd (run_events host0 [SuiteStarted suite_A, SpecStarted spec_t1] (newReporter None))"



text \<open>Suite \<open>A\<close> entered, suite \<open>B\<close> entered, spec \<open>t1\<close> entered and exited as passed, suite
  \<open>B\<close> exited, suite \<open>A\<close> exited.\<close>

definition scenario_AB :: "event list" where
  "scenario_AB = [SuiteStarted suite_A, SuiteStarted suite_B, SpecStarted spec_t1,
     SpecDone spec_t1, SuiteDone suite_B, SuiteDone suite_A]"

text \<open>A step body that logs a status on the step it runs in:
  \<open>() => { reporter.currentStep.logStep(status) }\<close>.\<close>

definition logging_body :: "Status \<Rightarrow> body" where
  "logging_body st =
     (\<lambda>args w. (Return JUndefined,
                 case currentStep w of None \<Rightarrow> w | Some s \<Rightarrow> logStep (StepRef s) st w))"

text \<open>A failed matcher, an exception thrown by the spec, and a spec that failed with
  both, the matcher first; the same spec with the matcher only.\<close>

definition expectation_toBe :: FailedExpectation where
  "expectation_toBe = \<lparr>matcherName = ''toBe'', e_message = Some ''expected 1 to be 2'',
     e_stack = Some ''expected 1 to be 2 at spec.js:3''\<rparr>"

definition expectation_thrown :: FailedExpectation where
  "expectation_thrown = \<lparr>matcherName = [], e_message = Some ''boom'',
     e_stack = Some ''boom at spec.js:7''\<rparr>"

definition spec_failed :: CustomReporterResult where
  "spec_failed = \<lparr>description = ''t1'', spec_fullName = ''A t1'', spec_status = Some ''failed'',
     pendingReason = None, failedExpectations = Some [expectation_toBe, expectation_thrown],
     testPath = Some ''src/a.test.js''\<rparr>"

definition spec_failed_matcher :: CustomReporterResult where
  "spec_failed_matcher = spec_failed\<lparr>failedExpectations := Some [expectation_toBe]\<rparr>"

section \<open>The executable wrapper\<close>

lemmas wrapper_defs = updResult_def set_status_def set_stage_def set_detailsMessage_def
  set_detailsTrace_def get_detailsTrace_def get_detailsMessage_def record_failure_def
  wrap_catch_def wrap_resolved_def wrap_rejected_def js_or_def prop_of_def

lemma truthy_prop_of: "truthy (prop_of err k) \<Longrightarrow> \<exists>kvs. err = JObject kvs"
  by (cases err) (auto simp: prop_of_def)

text \<open>
  C1 (as amended). When the wrapped body throws synchronously an error whose \<open>stack\<close> and
  \<open>message\<close> are both truthy, the wrapper records status failed and stage finished with
  the detail message equal to the error's message.
\<close>

theorem wrap_sync_throw_error:
  assumes "fn [JArray args] (set_stage r RUNNING w) = (Throw err, w1)"
      and "truthy (prop_of err ''stack'')" and "truthy (prop_of err ''message'')"
  shows "status (results (snd (wrap r fn args w)) r) = Some FAILED
       \<and> stage (results (snd (wrap r fn args w)) r) = FINISHED
       \<and> message (statusDetails (results (snd (wrap r fn args w)) r)) = prop_of err ''message''"
proof -
  from assms(2) obtain kvs where e: "err = JObject kvs"
    using truthy_prop_of by blast
  show ?thesis using assms unfolding e
    by (simp add: wrap_def wrapper_defs Let_def)
qed

theorem wrap_sync_throw_error_witness:
  "throwing error_boom [JArray []] (set_stage (StepRef 0) RUNNING (newReporter None))
     = (Throw error_boom, set_stage (StepRef 0) RUNNING (newReporter None))
   \<and> truthy (prop_of error_boom ''stack'') \<and> truthy (prop_of error_boom ''message'')
   \<and> status (results (snd (wrap (StepRef 0) (throwing error_boom) [] (newReporter None)))
        (StepRef 0)) = Some FAILED
   \<and> stage (results (snd (wrap (StepRef 0) (throwing error_boom) [] (newReporter None)))
        (StepRef 0)) = FINISHED
   \<and> message (statusDetails (results
        (snd (wrap (StepRef 0) (throwing error_boom) [] (newReporter None))) (StepRef 0)))
       = JStr ''boom''"
proof -
  have a: "throwing error_boom [JArray []] (set_stage (StepRef 0) RUNNING (newReporter None))
     = (Throw error_boom, set_stage (StepRef 0) RUNNING (newReporter None))"
    by (simp add: throwing_def)
  have b: "truthy (prop_of error_boom ''stack'')"
    by (simp add: prop_of_def error_boom_def)
  have c: "truthy (prop_of error_boom ''message'')"
    by (simp add: prop_of_def error_boom_def)
  have d: "prop_of error_boom ''message'' = JStr ''boom''"
    by (simp add: prop_of_def error_boom_def)
  show ?thesis
    using wrap_sync_throw_error [of "throwing error_boom" "[]" "StepRef 0" "newReporter None"
        error_boom "set_stage (StepRef 0) RUNNING (newReporter None)"] a b c d
    by simp
qed

text \<open>
  C1 as stated fails: a body that throws \<open>new Error()\<close> (empty message) on a fresh item
  leaves the item with status passed, not failed, and the wrapped call does not throw:
  it returns.
\<close>

theorem wrap_sync_throw_counterexample:
  "throwing error_no_message [JArray []] (set_stage (StepRef 0) RUNNING (newReporter None))
     = (Throw error_no_message, set_stage (StepRef 0) RUNNING (newReporter None))
   \<and> status (results (snd (wrap (StepRef 0) (throwing error_no_message) [] (newReporter None)))
        (StepRef 0)) = Some PASSED
   \<and> status (results (snd (wrap (StepRef 0) (throwing error_no_message) [] (newReporter None)))
        (StepRef 0)) \<noteq> Some FAILED
   \<and> fst (wrap (StepRef 0) (throwing error_no_message) [] (newReporter None))
       = Inr error_no_message"
  by (simp add: wrap_def wrapper_defs Let_def throwing_def newReporter_def newResult_def
      error_no_message_def)

text \<open>
  The throw of a body is not thrown again. For an error with stack and message too, the
  wrapped call returns the error as a value, where the \<open>catch\<close> clause of \<open>step\<close>
  (\<open>wrappedStep.endStep(); throw err\<close>) expects it to throw. Neither way of handing the
  error on is part of C1 as amended.
\<close>

lemma wrap_sync_throw_returns:
  "fst (wrap (StepRef 0) (throwing error_boom) [] (newReporter None)) = Inr error_boom"
  by (simp add: wrap_def wrapper_defs Let_def throwing_def newReporter_def newResult_def
      error_boom_def)

text \<open>
  C2, at the failing input. The body \<open>() => { throw "boom" }\<close>, wrapped on a fresh item,
  throws a plain value, which exposes neither a message nor a stack. The specification
  asks for status broken; the wrapper records status passed and stage finished, and the
  wrapped call returns \<open>undefined\<close>.
\<close>

theorem wrap_sync_throw_plain_value:
  "fst (wrap (StepRef 0) (throwing (JStr ''boom'')) [] (newReporter None)) = Inr JUndefined
   \<and> status (results (snd (wrap (StepRef 0) (throwing (JStr ''boom'')) [] (newReporter None)))
        (StepRef 0)) = Some PASSED
   \<and> stage (results (snd (wrap (StepRef 0) (throwing (JStr ''boom'')) [] (newReporter None)))
        (StepRef 0)) = FINISHED
   \<and> message (statusDetails (results
        (snd (wrap (StepRef 0) (throwing (JStr ''boom'')) [] (newReporter None))) (StepRef 0)))
       = JUndefined"
  by (simp add: wrap_def wrapper_defs Let_def throwing_def newReporter_def newResult_def)

text \<open>
  The sibling path: a returned promise that rejects with such a value, on an item whose
  status is not set when it settles, is recorded as broken and interrupted, and the
  details are left as they were.
\<close>

lemma wrap_async_reject_plain:
  assumes "fn [JArray args] (set_stage r RUNNING w) = (Return (JPromise (Rejected err)), w1)"
      and "\<not> (truthy (prop_of err ''stack'') \<and> truthy (prop_of err ''message''))"
      and "status (results w1 r) = None"
  shows "status (results (snd (wrap r fn args w)) r) = Some BROKEN
       \<and> stage (results (snd (wrap r fn args w)) r) = INTERRUPTED
       \<and> statusDetails (results (snd (wrap r fn args w)) r) = statusDetails (results w1 r)"
  using assms by (auto simp add: wrap_def wrapper_defs Let_def)

section \<open>The lifecycle state machine\<close>

lemma split_on_nonempty: "split_on c s \<noteq> []"
  by (induction s) (auto split: list.splits)

lemmas group_defs = getCurrentGroup_def currentGroup_def startGroup_here_def
  runtime_startGroup_def group_startGroup_def startTest_def updGroup_def endGroup_def

lemmas example_defs = host0_def suite_A_def suite_B_def spec_t1_def newReporter_def
  newResult_def newGroup_def

lemmas specStarted_defs = specStarted_def openFileGroup_def specPath_def setUpTest_def
  suiteLabels_def pathLabels_def flushLabels_def test_addLabel_def addLabel_def
  LabelName_PARENT_SUITE_def LabelName_SUITE_def LabelName_SUB_SUITE_def
  LabelName_THREAD_def LabelName_PACKAGE_def

lemma running_t1_state:
  "runningTest running_t1 = Some 2 \<and> isSuite running_t1 \<and> groupStack running_t1 = [0, 1]
   \<and> lim running_t1 = 3 \<and> stepStack running_t1 = [] \<and> console running_t1 = []
   \<and> clock running_t1 = 1 \<and> runningExecutable running_t1 = None"
  by (simp add: running_t1_def suiteStarted_def specStarted_defs group_defs example_defs
      updResult_def set_stage_def Let_def)

lemma runningTest_openFileGroup:
  "openFileGroup h spec w = Inr (arr, w1) \<Longrightarrow> runningTest w1 = runningTest w"
  by (auto simp: openFileGroup_def group_defs Let_def split: if_splits sum.splits option.splits)

lemma openFileGroup_suite: "isSuite w \<Longrightarrow> openFileGroup h spec w = Inr ([], w)"
  by (simp add: openFileGroup_def)

lemma openFileGroup_no_path:
  "\<not> isSuite w \<Longrightarrow> testPath spec = None \<Longrightarrow> openFileGroup h spec w = Inl TypeError"
  by (simp add: openFileGroup_def specPath_def)

lemma openFileGroup_path:
  "\<not> isSuite w \<Longrightarrow> testPath spec = Some tp \<Longrightarrow>
   \<exists>arr w1. openFileGroup h spec w = Inr (arr, w1) \<and> groupStack w1 \<noteq> []"
  by (auto simp: openFileGroup_def specPath_def split_on_nonempty group_defs Let_def
      split: option.splits)

lemma specStarted_running:
  assumes "runningTest w \<noteq> None" and "openFileGroup h spec w = Inr (arr, w1)"
      and "groupStack w1 \<noteq> []"
  shows "fst (specStarted h spec w) = Inl (Error ''Test is starting before other ended!'')"
  using assms runningTest_openFileGroup [OF assms(2)]
  by (simp add: specStarted_def group_defs Let_def split: prod.splits)

text \<open>
  C3. At most one test is current. A spec-entered event delivered while a test is running
  never returns normally: it raises the overlap error (or, when it cannot even open the
  wrapper group, the error of that step: no active suite, or the TypeError of a missing
  test path); so a spec-entered event that returns normally started from a state with no
  running test. A spec-exited event with no running test raises an error and changes
  nothing.
\<close>

theorem single_running_test:
  "(runningTest w \<noteq> None \<longrightarrow>
      fst (specStarted h spec w) =
        Inl (if \<not> isSuite w \<and> testPath spec = None then TypeError
             else if isSuite w \<and> groupStack w = [] then Error ''No active suite''
             else Error ''Test is starting before other ended!''))
   \<and> (fst (specStarted h spec w) = Inr () \<longrightarrow> runningTest w = None)
   \<and> (runningTest w = None \<longrightarrow>
        specDone h spec w = (Inl (Error ''specDone while no test is running''), w))"
proof -
  have a: "fst (specStarted h spec w) =
        Inl (if \<not> isSuite w \<and> testPath spec = None then TypeError
             else if isSuite w \<and> groupStack w = [] then Error ''No active suite''
             else Error ''Test is starting before other ended!'')" if r: "runningTest w \<noteq> None"
  proof (cases "isSuite w")
    case True
    show ?thesis
    proof (cases "groupStack w = []")
      case True
      with \<open>isSuite w\<close> show ?thesis
        by (simp add: specStarted_def openFileGroup_suite getCurrentGroup_def)
    next
      case False
      with \<open>isSuite w\<close> r specStarted_running [of w h spec "[]" w] show ?thesis
        by (simp add: openFileGroup_suite)
    qed
  next
    case False
    show ?thesis
    proof (cases "testPath spec")
      case None
      with False show ?thesis
        by (simp add: specStarted_def openFileGroup_no_path)
    next
      case (Some tp)
      with False obtain arr w1
        where "openFileGroup h spec w = Inr (arr, w1)" and "groupStack w1 \<noteq> []"
        using openFileGroup_path by blast
      with r specStarted_running [of w h spec arr w1] False Some show ?thesis by simp
    qed
  qed
  have b: "runningTest w = None" if "fst (specStarted h spec w) = Inr ()"
    using a that by (cases "runningTest w") auto
  have c: "specDone h spec w = (Inl (Error ''specDone while no test is running''), w)"
    if "runningTest w = None"
    using that by (simp add: specDone_def)
  show ?thesis using a b c by blast
qed

theorem single_running_test_witness:
  "runningTest running_t1 \<noteq> None
   \<and> fst (specStarted host0 spec_t1 running_t1)
       = Inl (Error ''Test is starting before other ended!'')
   \<and> runningTest (newReporter None) = None
   \<and> specDone host0 spec_t1 (newReporter None)
       = (Inl (Error ''specDone while no test is running''), newReporter None)"
proof -
  have n: "runningTest (newReporter None) = None"
    by (simp add: newReporter_def)
  show ?thesis
    using single_running_test [of running_t1 host0 spec_t1]
      single_running_test [of "newReporter None" host0 spec_t1] running_t1_state n
    by simp
qed

text \<open>
  C10. The overlap check of spec-entered comes after the report model has been changed.
  When the overlap error is raised, the "Test wrapper" group has been created under the
  current group and pushed onto the group stack (after the file group, outside suite
  mode), the new test has been started inside it, and the running test is the old one.
\<close>

theorem specStarted_overlap_mutates:
  assumes "runningTest w \<noteq> None"
      and "isSuite w \<longrightarrow> groupStack w \<noteq> []" and "\<not> isSuite w \<longrightarrow> testPath spec \<noteq> None"
  shows "fst (specStarted h spec w) = Inl (Error ''Test is starting before other ended!'')
     \<and> (let g = (if isSuite w then lim w else Suc (lim w)); w' = snd (specStarted h spec w)
        in groupStack w' = groupStack w @ (if isSuite w then [] else [lim w]) @ [g]
         \<and> groupName (groups w' g) = ''Test wrapper''
         \<and> ChildGroup g
             \<in> set (children (groups w'
                   (last (groupStack w @ (if isSuite w then [] else [lim w])))))
         \<and> ChildTest (Suc g) \<in> set (children (groups w' g))
         \<and> name (results w' (TestRef (Suc g))) = description spec
         \<and> lim w' = Suc (Suc g)
         \<and> runningTest w' = runningTest w)"
proof (cases "isSuite w")
  case True
  with assms show ?thesis
    by (simp add: specStarted_def openFileGroup_def group_defs Let_def newGroup_def newResult_def)
next
  case False
  with assms obtain tp where tp: "testPath spec = Some tp" by auto
  from False assms(1) tp show ?thesis
    by (simp add: specStarted_def openFileGroup_def specPath_def split_on_nonempty group_defs
        Let_def newGroup_def newResult_def split: option.splits)
qed

theorem specStarted_overlap_mutates_witness:
  "runningTest running_t1 \<noteq> None \<and> isSuite running_t1 \<and> groupStack running_t1 = [0, 1]
   \<and> fst (specStarted host0 spec_t1 running_t1)
       = Inl (Error ''Test is starting before other ended!'')
   \<and> groupStack (snd (specStarted host0 spec_t1 running_t1)) = [0, 1, 3]
   \<and> groupName (groups (snd (specStarted host0 spec_t1 running_t1)) 3) = ''Test wrapper''
   \<and> ChildGroup 3 \<in> set (children (groups (snd (specStarted host0 spec_t1 running_t1)) 1))
   \<and> ChildTest 4 \<in> set (children (groups (snd (specStarted host0 spec_t1 running_t1)) 3))
   \<and> lim (snd (specStarted host0 spec_t1 running_t1)) = 5"
  using specStarted_overlap_mutates [of running_t1 spec_t1 host0] running_t1_state
  by (simp add: Let_def)

text \<open>
  C5 (as amended). A suite-exited event that arrives outside suite mode or while a test
  is running is logged and not raised: when a group is open the handler returns normally,
  closes and pops the current group and pops the label buffer, and the console holds the
  anomalies. A suite-exited event with no open group raises the error "No active suite.".
\<close>

theorem suiteDone_anomalies:
  "(groupStack w \<noteq> [] \<longrightarrow>
      fst (suiteDone suite w) = Inr ()
    \<and> groupStack (snd (suiteDone suite w)) = butlast (groupStack w)
    \<and> labelStack (snd (suiteDone suite w)) = butlast (labelStack w)
    \<and> ended (groups (snd (suiteDone suite w)) (last (groupStack w)))
    \<and> runningTest (snd (suiteDone suite w)) = runningTest w
    \<and> console (snd (suiteDone suite w)) = console w
        @ (if \<not> isSuite w
           then [''Allure reporter issue: suiteDone called without suiteStart context.'']
           else [])
        @ (if runningTest w \<noteq> None
           then [''Allure reporter issue: A test was running on suiteDone.''] else []))
   \<and> (groupStack w = [] \<longrightarrow>
      fst (suiteDone suite w) = Inl (Error ''No active suite.'')
    \<and> groupStack (snd (suiteDone suite w)) = []
    \<and> labelStack (snd (suiteDone suite w)) = labelStack w)"
  by (simp add: suiteDone_def group_defs console_error_def Let_def)

theorem suiteDone_anomalies_witness:
  "groupStack running_t1 \<noteq> []
   \<and> fst (suiteDone suite_A running_t1) = Inr ()
   \<and> groupStack (snd (suiteDone suite_A running_t1)) = [0]
   \<and> console (snd (suiteDone suite_A running_t1))
       = [''Allure reporter issue: A test was running on suiteDone.'']
   \<and> groupStack (newReporter None) = []
   \<and> fst (suiteDone suite_A (newReporter None)) = Inl (Error ''No active suite.'')"
proof -
  have n: "groupStack (newReporter None) = []"
    by (simp add: newReporter_def)
  show ?thesis
    using suiteDone_anomalies [of running_t1 suite_A]
      suiteDone_anomalies [of "newReporter None" suite_A] running_t1_state n
    by simp
qed

text \<open>
  C5 as stated fails: a suite-exited event delivered to a reporter with no open group is
  raised as an error, not logged.
\<close>

theorem suiteDone_no_group_counterexample:
  "getCurrentGroup (newReporter None) = None
   \<and> fst (suiteDone suite_A (newReporter None)) = Inl (Error ''No active suite.'')"
  by (simp add: suiteDone_def group_defs console_error_def Let_def newReporter_def)

section \<open>Steps left open at spec-exited\<close>













lemma updResult_self: "results (updResult r f w) r = f (results w r)"
  by (simp add: updResult_def)

lemmas setter_defs = set_status_def set_stage_def set_detailsMessage_def set_detailsTrace_def






lemmas interface_defs = Interface_step_def Interface_startStep_def currentExecutable_def
  currentStep_def currentTest_def startStep_def pushStep_def popStep_def
  WrappedStep_run_def WrappedStep_endStep_def WrappedStep_logStep_def




section \<open>Nested suites\<close>

lemmas specDone_defs = specDone_def closeLeakedSteps_def captureStatus_def captureException_def
  exceptionInfo_def findMessageAboutThrow_def findAnyError_def endTest_def
  SpecStatus_PASSED_def SpecStatus_FAILED_def SpecStatus_BROKEN_def SpecStatus_PENDING_def
  SpecStatus_DISABLED_def SpecStatus_EXCLUDED_def SpecStatus_TODO_def

text \<open>
  C6 (as amended). For the events of \<open>scenario_AB\<close>, on a host that sets no worker id, every
  handler returns normally, test \<open>t1\<close> carries exactly the labels parent-suite = A and
  suite = B, and the final group tree is root, A, B, "Test wrapper", t1: the test is the
  child of the wrapper group that spec-entered opens under B.
\<close>

theorem nested_suites_scenario:
  assumes "JEST_WORKER_ID h = None"
  shows "fst (run_events h scenario_AB (newReporter dir)) = Inr ()
    \<and> labels (results (snd (run_events h scenario_AB (newReporter dir))) (TestRef 3))
        = [(LabelName_PARENT_SUITE, ''A''), (LabelName_SUITE, ''B'')]
    \<and> name (results (snd (run_events h scenario_AB (newReporter dir))) (TestRef 3)) = ''t1''
    \<and> status (results (snd (run_events h scenario_AB (newReporter dir))) (TestRef 3))
        = Some PASSED
    \<and> rootGroups (snd (run_events h scenario_AB (newReporter dir))) = [0]
    \<and> groups (snd (run_events h scenario_AB (newReporter dir))) 0
        = \<lparr>groupName = ''A'', children = [ChildGroup 1], befores = [], afters = [],
           ended = True\<rparr>
    \<and> groups (snd (run_events h scenario_AB (newReporter dir))) 1
        = \<lparr>groupName = ''B'', children = [ChildGroup 2], befores = [], afters = [],
           ended = True\<rparr>
    \<and> groups (snd (run_events h scenario_AB (newReporter dir))) 2
        = \<lparr>groupName = ''Test wrapper'', children = [ChildTest 3], befores = [], afters = [],
           ended = True\<rparr>
    \<and> groupStack (snd (run_events h scenario_AB (newReporter dir))) = []
    \<and> runningTest (snd (run_events h scenario_AB (newReporter dir))) = None"
  using assms
  by (simp add: scenario_AB_def suiteStarted_def suiteDone_def specStarted_defs specDone_defs
      group_defs example_defs updResult_def setter_defs console_error_def Let_def)

theorem nested_suites_scenario_witness:
  "JEST_WORKER_ID host0 = None
   \<and> fst (run_events host0 scenario_AB (newReporter None)) = Inr ()
   \<and> labels (results (snd (run_events host0 scenario_AB (newReporter None))) (TestRef 3))
       = [(''parent-suite'', ''A''), (''suite'', ''B'')]
   \<and> children (groups (snd (run_events host0 scenario_AB (newReporter None))) 2)
       = [ChildTest 3]"
proof -
  have a: "JEST_WORKER_ID host0 = None"
    by (simp add: host0_def)
  show ?thesis
    using nested_suites_scenario [OF a, of None] a
    by (simp add: LabelName_PARENT_SUITE_def LabelName_SUITE_def)
qed

text \<open>
  C6 as stated fails: in the final tree the only child of group \<open>B\<close> is the "Test wrapper"
  group; test \<open>t1\<close> is not a child of \<open>B\<close>.
\<close>

theorem nested_suites_counterexample:
  "groupName (groups (snd (run_events host0 scenario_AB (newReporter None))) 1) = ''B''
   \<and> name (results (snd (run_events host0 scenario_AB (newReporter None))) (TestRef 3)) = ''t1''
   \<and> children (groups (snd (run_events host0 scenario_AB (newReporter None))) 1)
       = [ChildGroup 2]
   \<and> groupName (groups (snd (run_events host0 scenario_AB (newReporter None))) 2)
       = ''Test wrapper''
   \<and> ChildTest 3
       \<notin> set (children (groups (snd (run_events host0 scenario_AB (newReporter None))) 1))"
  by (simp add: scenario_AB_def suiteStarted_def suiteDone_def specStarted_defs specDone_defs
      group_defs example_defs updResult_def setter_defs console_error_def Let_def)

section \<open>Steps opened and closed through the interface\<close>

lemma attachAll_frame:
  "status (results (snd (attachAll h as w)) r) = status (results w r)
   \<and> stage (results (snd (attachAll h as w)) r) = stage (results w r)
   \<and> name (results (snd (attachAll h as w)) r) = name (results w r)
   \<and> stepStack (snd (attachAll h as w)) = stepStack w"
proof (induction as arbitrary: w)
  case Nil
  then show ?case by simp
next
  case (Cons a as)
  obtain nm content ty where a: "a = (nm, content, ty)" by (cases a) auto
  show ?case
  proof (cases "currentExecutable w")
    case (Inl e)
    then show ?thesis by (simp add: a Interface_attachment_def)
  next
    case (Inr x)
    then show ?thesis
      using Cons.IH [of "addAttachment x nm ty (writeAttachment h content ty) w"]
      by (simp add: a Interface_attachment_def addAttachment_def updResult_def)
  qed
qed

lemma Interface_startStep_Inr:
  "Interface_startStep nm w = (Inr s, w1) \<Longrightarrow>
   s = lim w \<and> stepStack w1 = stepStack w @ [s] \<and> name (results w1 (StepRef s)) = nm"
  by (auto simp: Interface_startStep_def startStep_def pushStep_def updResult_def Let_def
      split: sum.splits)

lemma Interface_logStep_status:
  assumes "fst (Interface_logStep h nm st atts w) = Inr ()"
  shows "status (results (snd (Interface_logStep h nm st atts w)) (StepRef (lim w))) = Some st
       \<and> stage (results (snd (Interface_logStep h nm st atts w)) (StepRef (lim w))) = FINISHED
       \<and> name (results (snd (Interface_logStep h nm st atts w)) (StepRef (lim w))) = nm
       \<and> stepStack (snd (Interface_logStep h nm st atts w)) = stepStack w"
proof -
  obtain r w1 where s1: "Interface_startStep nm w = (r, w1)" by (cases "Interface_startStep nm w")
  with assms obtain s where r: "r = Inr s"
    by (cases r) (auto simp: Interface_logStep_def)
  let ?as = "case atts of None \<Rightarrow> [] | Some as \<Rightarrow> as"
  obtain u w2 where s2: "attachAll h ?as w1 = (u, w2)" by (cases "attachAll h ?as w1")
  with assms s1 r have u: "u = Inr ()"
    by (cases u) (auto simp: Interface_logStep_def)
  have f: "name (results w2 (StepRef s)) = name (results w1 (StepRef s))"
       "stepStack w2 = stepStack w1"
    using attachAll_frame [of h ?as w1 "StepRef s"] s2 by simp_all
  from s1 r have i: "s = lim w" "stepStack w1 = stepStack w @ [s]" "name (results w1 (StepRef s)) = nm"
    using Interface_startStep_Inr by blast+
  show ?thesis
    using s1 r s2 u f i
    by (simp add: Interface_logStep_def WrappedStep_endStep_def WrappedStep_logStep_def
        logStep_def endStep_def popStep_def setter_defs updResult_def)
qed

lemma Interface_step_status:
  assumes "Interface_startStep nm w = (Inr s, w1)"
      and "fn [JArray []] (set_stage (StepRef s) RUNNING w1) = (Return v, w2)"
      and "v \<noteq> JPromise Pending" and "\<forall>e. v \<noteq> JPromise (Rejected e)"
  shows "status (results (snd (Interface_step nm fn w)) (StepRef s))
           = (case status (results w2 (StepRef s)) of None \<Rightarrow> Some PASSED | Some x \<Rightarrow> Some x)
       \<and> stage (results (snd (Interface_step nm fn w)) (StepRef s)) = FINISHED
       \<and> stop (results (snd (Interface_step nm fn w)) (StepRef s)) \<noteq> None"
proof (cases v)
  case (JPromise p)
  with assms(3,4) obtain a where "p = Resolved a" by (cases p) auto
  with JPromise assms(1,2) show ?thesis
    by (simp add: Interface_step_def WrappedStep_run_def wrap_def wrap_resolved_def
        WrappedStep_endStep_def endStep_def popStep_def setter_defs updResult_def Let_def
        split: option.splits)
qed (use assms(1,2) in \<open>simp_all add: Interface_step_def WrappedStep_run_def wrap_def
        WrappedStep_endStep_def endStep_def popStep_def setter_defs updResult_def Let_def
        split: option.splits\<close>)

text \<open>
  C7. A step run with \<open>step(name, body)\<close> whose body returns normally (a value that is not
  a promise, or a promise that resolves) ends with stage finished, is closed, and has the
  status it had when the body completed if one was set, and status passed if none was:
  completion does not overwrite a status that was assigned before. A step logged with
  \<open>logStep(name, status, attachments)\<close> is opened, given that status with stage finished,
  and closed: it keeps the status, and the step stack is as before.
\<close>

theorem step_status_roundtrip:
  "(Interface_startStep nm w = (Inr s, w1)
      \<and> fn [JArray []] (set_stage (StepRef s) RUNNING w1) = (Return v, w2)
      \<and> v \<noteq> JPromise Pending \<and> (\<forall>e. v \<noteq> JPromise (Rejected e)) \<longrightarrow>
        status (results (snd (Interface_step nm fn w)) (StepRef s))
          = (case status (results w2 (StepRef s)) of None \<Rightarrow> Some PASSED | Some x \<Rightarrow> Some x)
      \<and> stage (results (snd (Interface_step nm fn w)) (StepRef s)) = FINISHED
      \<and> stop (results (snd (Interface_step nm fn w)) (StepRef s)) \<noteq> None)
   \<and> (fst (Interface_logStep h nm st atts w) = Inr () \<longrightarrow>
        status (results (snd (Interface_logStep h nm st atts w)) (StepRef (lim w))) = Some st
      \<and> stage (results (snd (Interface_logStep h nm st atts w)) (StepRef (lim w))) = FINISHED
      \<and> name (results (snd (Interface_logStep h nm st atts w)) (StepRef (lim w))) = nm
      \<and> stepStack (snd (Interface_logStep h nm st atts w)) = stepStack w)"
  using Interface_step_status [of nm w s w1 fn v w2] Interface_logStep_status [of h nm st atts w]
  by blast

lemma started_check:
  "\<exists>w1. Interface_startStep ''check'' running_t1 = (Inr 3, w1)
     \<and> stepStack w1 = [3] \<and> status (results w1 (StepRef 3)) = None"
  using running_t1_state
  by (simp add: interface_defs updResult_def newResult_def Let_def)

theorem step_status_roundtrip_witness:
  "status (results (snd (Interface_step ''check'' (returning JUndefined) running_t1)) (StepRef 3))
     = Some PASSED
   \<and> stage (results (snd (Interface_step ''check'' (returning JUndefined) running_t1)) (StepRef 3))
     = FINISHED
   \<and> status (results (snd (Interface_step ''check'' (logging_body BROKEN) running_t1)) (StepRef 3))
     = Some BROKEN
   \<and> fst (Interface_logStep host0 ''check'' SKIPPED None running_t1) = Inr ()
   \<and> status (results (snd (Interface_logStep host0 ''check'' SKIPPED None running_t1)) (StepRef 3))
     = Some SKIPPED"
proof -
  obtain w1 where s: "Interface_startStep ''check'' running_t1 = (Inr 3, w1)"
    and k: "stepStack w1 = [3]" and n: "status (results w1 (StepRef 3)) = None"
    using started_check by blast
  let ?w0 = "set_stage (StepRef 3) RUNNING w1"
  have a: "returning JUndefined [JArray []] ?w0 = (Return JUndefined, ?w0)"
    by (simp add: returning_def)
  have a': "status (results ?w0 (StepRef 3)) = None"
    using n by (simp add: set_stage_def updResult_def)
  have b: "logging_body BROKEN [JArray []] ?w0 = (Return JUndefined, logStep (StepRef 3) BROKEN ?w0)"
    using k by (simp add: logging_body_def currentStep_def set_stage_def updResult_def)
  have b': "status (results (logStep (StepRef 3) BROKEN ?w0) (StepRef 3)) = Some BROKEN"
    by (simp add: logStep_def setter_defs updResult_def)
  have c: "fst (Interface_logStep host0 ''check'' SKIPPED None running_t1) = Inr ()"
    using s by (simp add: Interface_logStep_def)
  have l: "lim running_t1 = 3" using running_t1_state by simp
  show ?thesis
    using step_status_roundtrip [of "''check''" running_t1 3 w1 "returning JUndefined"
        JUndefined ?w0 host0 SKIPPED None]
      step_status_roundtrip [of "''check''" running_t1 3 w1 "logging_body BROKEN"
        JUndefined "logStep (StepRef 3) BROKEN ?w0" host0 SKIPPED None]
      s a a' b b' c l
    by simp
qed

section \<open>The failure reported on a test\<close>

lemma replace_first_prefix: "replace_first p (p @ rest) = rest"
proof (cases "p @ rest")
  case Nil
  then show ?thesis by simp
next
  case (Cons c cs)
  have "take (length p) (c # cs) = p" and "drop (length p) (c # cs) = rest"
    using Cons [symmetric] by simp_all
  then show ?thesis
    using Cons by (simp del: take_Cons' drop_Cons')
qed

lemma find_first: "\<forall>x\<in>set pre. \<not> P x \<Longrightarrow> P e \<Longrightarrow> find P (pre @ e # post) = Some e"
  by (induction pre) auto

lemma find_none: "\<forall>x\<in>set es. \<not> P x \<Longrightarrow> find P es = None"
  by (induction es) auto

lemma exceptionInfo_thrown:
  "failedExpectations spec = Some (pre @ e # post) \<Longrightarrow> matcherName e = [] \<Longrightarrow>
   \<forall>x\<in>set pre. matcherName x \<noteq> [] \<Longrightarrow> exceptionInfo spec = Some e"
  by (simp add: exceptionInfo_def findMessageAboutThrow_def find_first)

lemma exceptionInfo_first:
  "failedExpectations spec = Some (e # es) \<Longrightarrow> \<forall>x\<in>set (e # es). matcherName x \<noteq> [] \<Longrightarrow>
   exceptionInfo spec = Some e"
  using find_none [of "e # es" "\<lambda>e. matcherName e = []"]
  by (simp add: exceptionInfo_def findMessageAboutThrow_def findAnyError_def)

lemma specDone_test_details:
  assumes "runningTest w = Some t"
  shows "statusDetails (results (snd (specDone h spec w)) (TestRef t))
         = statusDetails (results (captureException h spec t
               (captureStatus spec t (closeLeakedSteps w))) (TestRef t))"
  using assms
  by (simp add: specDone_def Let_def group_defs endTest_def updResult_def)

lemma captureException_details:
  assumes "exceptionInfo spec = Some info" and "e_message info = Some m"
      and "e_stack info = Some st" and "st \<noteq> []"
  shows "statusDetails (results (captureException h spec t w) (TestRef t))
         = \<lparr>message = JStr (stripAnsi h m),
            trace = JStr (replace_first (stripAnsi h m) (stripAnsi h st))\<rparr>"
  using assms
  by (simp add: captureException_def setter_defs updResult_def Let_def)

text \<open>
  C8. The failure that spec-exited reports is the first expectation whose matcher name is
  empty, if there is one, and the first expectation otherwise. When that failure has a
  string message and a non-empty string stack, the test's detail message is the message
  with the colour codes stripped, and its trace is the stripped stack with the leftmost
  occurrence of the stripped message removed; a stack that starts with the message loses
  that prefix.
\<close>

theorem specDone_failure_selection:
  "(failedExpectations spec = Some (pre @ e # post) \<and> matcherName e = []
      \<and> (\<forall>x\<in>set pre. matcherName x \<noteq> []) \<longrightarrow> exceptionInfo spec = Some e)
   \<and> (failedExpectations spec = Some (e # es) \<and> (\<forall>x\<in>set (e # es). matcherName x \<noteq> [])
        \<longrightarrow> exceptionInfo spec = Some e)
   \<and> (runningTest w = Some t \<and> exceptionInfo spec = Some info \<and> e_message info = Some m
        \<and> e_stack info = Some st \<and> st \<noteq> [] \<longrightarrow>
        message (statusDetails (results (snd (specDone h spec w)) (TestRef t)))
          = JStr (stripAnsi h m)
      \<and> trace (statusDetails (results (snd (specDone h spec w)) (TestRef t)))
          = JStr (replace_first (stripAnsi h m) (stripAnsi h st)))
   \<and> replace_first (stripAnsi h m) (stripAnsi h m @ rest) = rest"
  using exceptionInfo_thrown [of spec pre e post] exceptionInfo_first [of spec e es]
    specDone_test_details [of w t h spec] captureException_details [of spec info m st h t]
    replace_first_prefix [of "stripAnsi h m" rest]
  by simp

theorem specDone_failure_selection_witness:
  "failedExpectations spec_failed = Some ([expectation_toBe] @ expectation_thrown # [])
   \<and> matcherName expectation_thrown = [] \<and> matcherName expectation_toBe \<noteq> []
   \<and> exceptionInfo spec_failed = Some expectation_thrown
   \<and> exceptionInfo spec_failed_matcher = Some expectation_toBe
   \<and> runningTest running_t1 = Some 2
   \<and> message (statusDetails (results (snd (specDone host0 spec_failed running_t1)) (TestRef 2)))
       = JStr ''boom''
   \<and> trace (statusDetails (results (snd (specDone host0 spec_failed running_t1)) (TestRef 2)))
       = JStr '' at spec.js:7''"
proof -
  have a: "failedExpectations spec_failed = Some ([expectation_toBe] @ expectation_thrown # [])"
    by (simp add: spec_failed_def)
  have b: "matcherName expectation_thrown = []" "matcherName expectation_toBe \<noteq> []"
    "e_message expectation_thrown = Some ''boom''"
    "e_stack expectation_thrown = Some ''boom at spec.js:7''"
    by (simp_all add: expectation_thrown_def expectation_toBe_def)
  have c: "failedExpectations spec_failed_matcher = Some (expectation_toBe # [])"
    by (simp add: spec_failed_matcher_def)
  have d: "stripAnsi host0 ''boom'' = ''boom''"
    "stripAnsi host0 ''boom at spec.js:7'' = ''boom'' @ '' at spec.js:7''"
    by (simp_all add: host0_def)
  have r: "runningTest running_t1 = Some 2" using running_t1_state by simp
  have e: "exceptionInfo spec_failed = Some expectation_thrown"
    using specDone_failure_selection [of spec_failed "[expectation_toBe]" expectation_thrown "[]"]
      a b by simp
  show ?thesis
    using specDone_failure_selection [of spec_failed "[expectation_toBe]" expectation_thrown "[]"
        "[]" running_t1 2 expectation_thrown "''boom''" "''boom at spec.js:7''" host0
        "'' at spec.js:7''"]
      specDone_failure_selection [of spec_failed_matcher "[]" expectation_toBe "[]" "[]"]
      a b c d r e
    by simp
qed

section \<open>The argument handed to a wrapped body\<close>

lemma wrap_catch_not_promise:
  "wrap_catch r err w = (Inr res, w2) \<Longrightarrow> \<not> isPromise res"
  by (cases err) (auto simp: wrap_catch_def prop_of_def split: if_splits)

lemma wrap_return:
  assumes "fn [JArray args] (set_stage r RUNNING w) = (Return v, w1)"
  shows "wrap r fn args w =
          (case v of
             JPromise (Resolved x) \<Rightarrow> (Inr (JPromise (Resolved x)), wrap_resolved r w1)
           | JPromise (Rejected e) \<Rightarrow> (Inr (JPromise (Resolved JUndefined)), wrap_rejected r e w1)
           | JPromise Pending \<Rightarrow> (Inr (JPromise Pending), w1)
           | _ \<Rightarrow> (Inr v, set_stage r FINISHED
                      (if status (results w1 r) = None then set_status r (Some PASSED) w1 else w1)))"
  using assms by (simp add: wrap_def Let_def split: jsval.splits settlement.splits)

lemma wrap_throw:
  assumes "fn [JArray args] (set_stage r RUNNING w) = (Throw err, w1)"
  shows "wrap r fn args w =
          (case wrap_catch r err w1 of
             (Inl e, w2) \<Rightarrow> (Inl e, w2)
           | (Inr res, w2) \<Rightarrow>
               (Inr res, set_stage r FINISHED
                  (if status (results w2 r) = None then set_status r (Some PASSED) w2 else w2)))"
proof (cases "wrap_catch r err w1")
  case (Pair res w2)
  show ?thesis
  proof (cases res)
    case (Inl e)
    with Pair assms show ?thesis by (simp add: wrap_def Let_def)
  next
    case (Inr x)
    with Pair have "\<not> isPromise x" using wrap_catch_not_promise by blast
    with Pair Inr assms show ?thesis by (simp add: wrap_def Let_def)
  qed
qed

lemma wrap_return_plain:
  assumes "fn [JArray args] (set_stage r RUNNING w) = (Return v, w1)" and "\<not> isPromise v"
  shows "wrap r fn args w =
          (Inr v, set_stage r FINISHED
                    (if status (results w1 r) = None then set_status r (Some PASSED) w1 else w1))"
  using assms by (simp add: wrap_def Let_def)

lemma step_return_plain:
  assumes "Interface_startStep nm w = (Inr s, w0)"
      and "fn [JArray []] (set_stage (StepRef s) RUNNING w0) = (Return v, w1)"
      and "\<not> isPromise v"
  shows "Interface_step nm fn w =
          (Inr v, WrappedStep_endStep s (set_stage (StepRef s) FINISHED
             (if status (results w1 (StepRef s)) = None
              then set_status (StepRef s) (Some PASSED) w1 else w1)))"
  using assms wrap_return_plain [of fn "[]" "StepRef s" w0 v w1]
  by (simp add: Interface_step_def WrappedStep_run_def)

lemma setup_return_plain:
  assumes "currentGroup w = Inr g" and "addBefore g w = (f, w0)"
      and "fn [JArray []] (set_stage f RUNNING (w0\<lparr>runningExecutable := Some f\<rparr>)) = (Return v, w1)"
      and "\<not> isPromise v"
  shows "Interface_setup fn w =
          (Inr v, (set_stage f FINISHED
             (if status (results w1 f) = None then set_status f (Some PASSED) w1 else w1))
             \<lparr>runningExecutable := None\<rparr>)"
  using assms wrap_return_plain [of fn "[]" f "w0\<lparr>runningExecutable := Some f\<rparr>" v w1]
  by (simp add: Interface_setup_def)

lemma hook_return_plain:
  assumes "currentGroup w = Inr g" and "mk g w = (f, w0)"
      and "fn [JArray []] (set_stage f RUNNING (w0\<lparr>runningExecutable := Some f\<rparr>)) = (Return v, w1)"
      and "\<not> isPromise v"
  shows "makeWrapperAll mk (NoCallback fn) w =
          (Inr HookDone, (set_stage f FINISHED
             (if status (results w1 f) = None then set_status f (Some PASSED) w1 else w1))
             \<lparr>runningExecutable := None\<rparr>)"
  using assms wrap_return_plain [of fn "[]" f "w0\<lparr>runningExecutable := Some f\<rparr>" v w1]
  by (simp add: makeWrapperAll_def)

lemma hook_done:
  assumes "currentGroup w = Inr g" and "mk g w = (f, w0)"
      and "act (set_stage f RUNNING (w0\<lparr>runningExecutable := Some f\<rparr>)) = (DoneCalled, w1)"
  shows "makeWrapperAll mk (TakesDone act) w =
          (Inr HookDone, (wrap_resolved f w1)\<lparr>runningExecutable := None\<rparr>)"
  using assms
  by (simp add: makeWrapperAll_def wrap_def done_shim_def Let_def)

text \<open>
  C9. \<open>wrap\<close> calls the body with one argument, the array of the arguments given to the
  wrapped function: whatever the body does at that one-element argument list (return a
  value, return a promise, throw) and the world it leaves decide what the wrapped call
  returns and the world after it; the body's value at any other argument list plays no
  part; a body that returns its argument list returns the list holding that array.
  Every call site calls the wrapped function without arguments: for \<open>step\<close>, \<open>setup\<close>
  and a fixture hook whose body takes no callback, what the body does at the argument
  list holding the empty array decides the result, so a step body's parameter is bound to
  the empty array; a fixture body that takes the callback is called by the shim, which
  is the body that goes through \<open>wrap\<close>.
\<close>

theorem wrap_passes_argument_array:
  "(fn [JArray args] (set_stage r RUNNING w) = (Return v, w1) \<longrightarrow>
      wrap r fn args w =
        (case v of
           JPromise (Resolved x) \<Rightarrow> (Inr (JPromise (Resolved x)), wrap_resolved r w1)
         | JPromise (Rejected e) \<Rightarrow> (Inr (JPromise (Resolved JUndefined)), wrap_rejected r e w1)
         | JPromise Pending \<Rightarrow> (Inr (JPromise Pending), w1)
         | _ \<Rightarrow> (Inr v, set_stage r FINISHED
                    (if status (results w1 r) = None then set_status r (Some PASSED) w1 else w1))))
   \<and> (fn [JArray args] (set_stage r RUNNING w) = (Throw err, w1) \<longrightarrow>
      wrap r fn args w =
        (case wrap_catch r err w1 of
           (Inl e, w2) \<Rightarrow> (Inl e, w2)
         | (Inr res, w2) \<Rightarrow>
             (Inr res, set_stage r FINISHED
                (if status (results w2 r) = None then set_status r (Some PASSED) w2 else w2))))
   \<and> wrap r fn args w = wrap r (\<lambda>xs. fn [JArray args]) args w
   \<and> fst (wrap r arguments_probe args w) = Inr (JArray [JArray args])
   \<and> (Interface_startStep nm ws = (Inr s, ws0)
        \<and> fs [JArray []] (set_stage (StepRef s) RUNNING ws0) = (Return vs, ws1)
        \<and> \<not> isPromise vs \<longrightarrow>
      Interface_step nm fs ws =
        (Inr vs, WrappedStep_endStep s (set_stage (StepRef s) FINISHED
           (if status (results ws1 (StepRef s)) = None
            then set_status (StepRef s) (Some PASSED) ws1 else ws1))))
   \<and> Interface_step nm fs ws = Interface_step nm (\<lambda>xs. fs [JArray []]) ws
   \<and> (fst (Interface_startStep nm ws) \<noteq> Inl (Error ''No active test'') \<longrightarrow>
        fst (Interface_step nm arguments_probe ws) = Inr (JArray [JArray []]))
   \<and> (currentGroup wu = Inr g \<and> addBefore g wu = (f, wu0)
        \<and> fu [JArray []] (set_stage f RUNNING (wu0\<lparr>runningExecutable := Some f\<rparr>))
            = (Return vu, wu1)
        \<and> \<not> isPromise vu \<longrightarrow>
      Interface_setup fu wu =
        (Inr vu, (set_stage f FINISHED
           (if status (results wu1 f) = None then set_status f (Some PASSED) wu1 else wu1))
           \<lparr>runningExecutable := None\<rparr>))
   \<and> Interface_setup fu wu = Interface_setup (\<lambda>xs. fu [JArray []]) wu
   \<and> (currentGroup wh = Inr gh \<and> mk gh wh = (fx, wh0)
        \<and> fh [JArray []] (set_stage fx RUNNING (wh0\<lparr>runningExecutable := Some fx\<rparr>))
            = (Return vh, wh1)
        \<and> \<not> isPromise vh \<longrightarrow>
      makeWrapperAll mk (NoCallback fh) wh =
        (Inr HookDone, (set_stage fx FINISHED
           (if status (results wh1 fx) = None then set_status fx (Some PASSED) wh1 else wh1))
           \<lparr>runningExecutable := None\<rparr>))
   \<and> makeWrapperAll mk (NoCallback fh) wh
       = makeWrapperAll mk (NoCallback (\<lambda>xs. fh [JArray []])) wh
   \<and> (currentGroup wh = Inr gh \<and> mk gh wh = (fx, wh0)
        \<and> act (set_stage fx RUNNING (wh0\<lparr>runningExecutable := Some fx\<rparr>)) = (DoneCalled, wh1)
        \<longrightarrow>
      makeWrapperAll mk (TakesDone act) wh
        = (Inr HookDone, (wrap_resolved fx wh1)\<lparr>runningExecutable := None\<rparr>))"
proof -
  have a: "wrap r fn args w = wrap r (\<lambda>xs. fn [JArray args]) args w"
    by (simp add: wrap_def)
  have b: "fst (wrap r arguments_probe args w) = Inr (JArray [JArray args])"
    by (simp add: wrap_def arguments_probe_def Let_def)
  have c: "Interface_step nm fs ws = Interface_step nm (\<lambda>xs. fs [JArray []]) ws"
    by (simp add: Interface_step_def WrappedStep_run_def wrap_def
        cong: prod.case_cong sum.case_cong)
  have d: "Interface_setup fu wu = Interface_setup (\<lambda>xs. fu [JArray []]) wu"
    by (simp add: Interface_setup_def wrap_def cong: prod.case_cong sum.case_cong)
  have e: "fst (Interface_step nm arguments_probe ws) = Inr (JArray [JArray []])"
    if "fst (Interface_startStep nm ws) \<noteq> Inl (Error ''No active test'')"
    using that
    by (auto simp: Interface_step_def Interface_startStep_def currentExecutable_def
        currentTest_def WrappedStep_run_def wrap_def arguments_probe_def Let_def
        split: option.splits prod.splits sum.splits)
  have h: "makeWrapperAll mk (NoCallback fh) wh
       = makeWrapperAll mk (NoCallback (\<lambda>xs. fh [JArray []])) wh"
    by (simp add: makeWrapperAll_def wrap_def cong: prod.case_cong sum.case_cong)
  show ?thesis
    using a b c d e h wrap_return [of fn args r w v w1] wrap_throw [of fn args r w err w1]
      step_return_plain [of nm ws s ws0 fs vs ws1]
      setup_return_plain [of wu g f wu0 fu vu wu1]
      hook_return_plain [of wh gh mk fx wh0 fh vh wh1]
      hook_done [of wh gh mk fx wh0 act wh1]
    by blast
qed

theorem wrap_passes_argument_array_witness:
  "fst (wrap (StepRef 0) (returning (JNum 7)) [JNum 1] (newReporter None)) = Inr (JNum 7)
   \<and> fst (wrap (StepRef 0) arguments_probe [JNum 1] (newReporter None))
       = Inr (JArray [JArray [JNum 1]])
   \<and> fst (Interface_step ''probe'' (returning (JNum 7)) running_t1) = Inr (JNum 7)
   \<and> fst (Interface_step ''probe'' arguments_probe running_t1) = Inr (JArray [JArray []])
   \<and> fst (Interface_setup (returning (JNum 7)) running_t1) = Inr (JNum 7)
   \<and> fst (makeWrapperAll addBefore (NoCallback (returning (JNum 7))) running_t1) = Inr HookDone
   \<and> fst (makeWrapperAll addBefore (TakesDone calls_done) running_t1) = Inr HookDone"
proof -
  obtain ws0 where s: "Interface_startStep ''probe'' running_t1 = (Inr 3, ws0)"
    using running_t1_state
    by (simp add: Interface_startStep_def currentExecutable_def currentStep_def currentTest_def
        startStep_def Let_def)
  obtain wu0 where u: "addBefore 1 running_t1 = (FixtureRef 3, wu0)"
    using running_t1_state by (simp add: addBefore_def Let_def)
  have g: "currentGroup running_t1 = Inr 1"
    using running_t1_state by (simp add: currentGroup_def getCurrentGroup_def)
  have n: "fst (Interface_startStep ''probe'' running_t1) \<noteq> Inl (Error ''No active test'')"
    using s by simp
  have r: "\<And>xs w. returning (JNum 7) xs w = (Return (JNum 7), w)"
    by (simp add: returning_def)
  have p: "\<not> isPromise (JNum 7)" by simp
  have d: "calls_done (set_stage (FixtureRef 3) RUNNING (wu0\<lparr>runningExecutable := Some (FixtureRef 3)\<rparr>))
           = (DoneCalled, set_stage (FixtureRef 3) RUNNING (wu0\<lparr>runningExecutable := Some (FixtureRef 3)\<rparr>))"
    by (simp add: calls_done_def)
  note T = wrap_passes_argument_array
    [where fn = "returning (JNum 7)" and args = "[JNum 1]" and r = "StepRef 0"
       and w = "newReporter None" and v = "JNum 7"
       and ?w1.0 = "set_stage (StepRef 0) RUNNING (newReporter None)"
       and nm = "''probe''" and ws = running_t1 and s = 3 and ?ws0.0 = ws0
       and fs = "returning (JNum 7)" and vs = "JNum 7"
       and ?ws1.0 = "set_stage (StepRef 3) RUNNING ws0"
       and wu = running_t1 and g = 1 and f = "FixtureRef 3" and ?wu0.0 = wu0
       and fu = "returning (JNum 7)" and vu = "JNum 7"
       and ?wu1.0 = "set_stage (FixtureRef 3) RUNNING (wu0\<lparr>runningExecutable := Some (FixtureRef 3)\<rparr>)"
       and wh = running_t1 and gh = 1 and mk = addBefore and fx = "FixtureRef 3"
       and ?wh0.0 = wu0 and fh = "returning (JNum 7)" and vh = "JNum 7"
       and ?wh1.0 = "set_stage (FixtureRef 3) RUNNING (wu0\<lparr>runningExecutable := Some (FixtureRef 3)\<rparr>)"
       and act = calls_done]
  have 1: "fst (wrap (StepRef 0) (returning (JNum 7)) [JNum 1] (newReporter None)) = Inr (JNum 7)"
    using T r by simp
  have 2: "fst (wrap (StepRef 0) arguments_probe [JNum 1] (newReporter None))
       = Inr (JArray [JArray [JNum 1]])"
    using T by blast
  have 3: "fst (Interface_step ''probe'' (returning (JNum 7)) running_t1) = Inr (JNum 7)"
    using T s r p by simp
  have 4: "fst (Interface_step ''probe'' arguments_probe running_t1) = Inr (JArray [JArray []])"
    using T n by blast
  have 5: "fst (Interface_setup (returning (JNum 7)) running_t1) = Inr (JNum 7)"
    using T g u r p by simp
  have 6: "fst (makeWrapperAll addBefore (NoCallback (returning (JNum 7))) running_t1) = Inr HookDone"
    using T g u r p by simp
  have 7: "fst (makeWrapperAll addBefore (TakesDone calls_done) running_t1) = Inr HookDone"
    using T g u d by simp
  show ?thesis using 1 2 3 4 5 6 7 by blast
qed

end
